theory Spec2Isabelle
  imports Main
begin

section \<open>Document labels and what the graphics drivers read of them\<close>

text \<open>
  Modelled from the spec: \<^verbatim>\<open>TDF_Label\<close> is a type of the geometry kernel and
  \<^verbatim>\<open>XCaf::isShape\<close>, \<^verbatim>\<open>XCaf::shape\<close> belong to \<^verbatim>\<open>xcaf.h\<close>; neither is among the
  sources. The drivers of \<^verbatim>\<open>graphics_entity_driver.cpp\<close> ask three things of a document
  label: \<^verbatim>\<open>XCaf::isShape(label)\<close>, \<^verbatim>\<open>XCaf::shape(label).ShapeType()\<close> and
  \<^verbatim>\<open>CafUtils::hasAttribute<TDataXtd_Triangulation>(label)\<close>. A label is the record of its
  entry (the path of tags that identifies it) and of the two attributes those queries look
  for; an absent attribute is \<open>None\<close>. The attributes are independent: a label may carry a
  shape, a triangulation, both or neither.
\<close>

datatype TopAbs_ShapeEnum =
  TopAbs_COMPOUND | TopAbs_COMPSOLID | TopAbs_SOLID | TopAbs_SHELL | TopAbs_FACE
  | TopAbs_WIRE | TopAbs_EDGE | TopAbs_VERTEX | TopAbs_SHAPE

record TopoDS_Shape =
  TShape :: nat
  ShapeType :: TopAbs_ShapeEnum

type_synonym Poly_Triangulation = nat

record TDF_Label =
  labelEntry :: "nat list"
  attrShape :: "TopoDS_Shape option"
  attrTriangulation :: "Poly_Triangulation option"

definition XCaf_isShape :: "TDF_Label \<Rightarrow> bool" where
  "XCaf_isShape label = (attrShape label \<noteq> None)"

definition XCaf_shape :: "TDF_Label \<Rightarrow> TopoDS_Shape option" where
  "XCaf_shape label = attrShape label"

definition CafUtils_hasAttribute_Triangulation :: "TDF_Label \<Rightarrow> bool" where
  "CafUtils_hasAttribute_Triangulation label = (attrTriangulation label \<noteq> None)"

text \<open>The default-constructed \<^verbatim>\<open>TDF_Label\<close> is the null label: no entry, no attribute.\<close>

definition TDF_Label_null :: TDF_Label where
  "TDF_Label_null = \<lparr>labelEntry = [], attrShape = None, attrTriangulation = None\<rparr>"


section \<open>Graphics entities\<close>

text \<open>
  Modelled from the spec: the class \<^verbatim>\<open>GraphicsEntity\<close> is declared in
  \<^verbatim>\<open>graphics_entity.h\<close>, which is not among the sources; its members are those the drivers
  and \<^verbatim>\<open>GuiDocument\<close> name. A \<^verbatim>\<open>GraphicsEntity\<close> holds the label it displays, a pointer to
  the driver that made it, a handle to the presentation object and a pointer to the scene it
  is shown in. Pointers are addresses (\<open>None\<close> is \<^verbatim>\<open>nullptr\<close>); a handle is \<open>None\<close> when
  null and otherwise holds the presentation object it refers to.
\<close>

type_synonym DriverPtr = nat
type_synonym ScenePtr = nat

datatype Aspect_TypeOfLine = Aspect_TOL_SOLID | Aspect_TOL_DASH | Aspect_TOL_DOT

record Prs3d_LineAspect =
  lineColor :: string
  lineType :: Aspect_TypeOfLine
  lineWidth :: nat

datatype AIS_Kind = XCAFPrs_AISObject TDF_Label | MeshVS_Mesh Poly_Triangulation

record AIS_InteractiveObject =
  aisKind :: AIS_Kind
  DisplayMode :: int
  FaceBoundaryDraw :: bool
  FaceBoundaryAspect :: "Prs3d_LineAspect option"
  IsoOnTriangulation :: bool

record GraphicsEntity =
  m_label :: TDF_Label
  m_driverPtr :: "DriverPtr option"
  m_aisObject :: "AIS_InteractiveObject option"
  m_gfxScenePtr :: "ScenePtr option"

text \<open>\<^verbatim>\<open>GraphicsEntity()\<close>: every member null.\<close>

definition GraphicsEntity_default :: GraphicsEntity where
  "GraphicsEntity_default =
     \<lparr>m_label = TDF_Label_null, m_driverPtr = None, m_aisObject = None, m_gfxScenePtr = None\<rparr>"

definition AIS_WireFrame :: int where "AIS_WireFrame = 0"
definition AIS_Shaded :: int where "AIS_Shaded = 1"

text \<open>
  \<^verbatim>\<open>new XCAFPrs_AISObject(label)\<close>. Each attribute kept in the record is then set by
  \<open>createEntity\<close>, so the values given here do not reach its result.
\<close>

definition new_XCAFPrs_AISObject :: "TDF_Label \<Rightarrow> AIS_InteractiveObject" where
  "new_XCAFPrs_AISObject label =
     \<lparr>aisKind = XCAFPrs_AISObject label, DisplayMode = AIS_WireFrame, FaceBoundaryDraw = False,
      FaceBoundaryAspect = None, IsoOnTriangulation = False\<rparr>"


section \<open>The drivers: support status and entity creation\<close>

datatype Support = Support_None | Support_Partial | Support_Complete

definition initEntity :: "DriverPtr \<Rightarrow> GraphicsEntity \<Rightarrow> TDF_Label \<Rightarrow> GraphicsEntity" where
  "initEntity this entity label = entity\<lparr>m_label := label, m_driverPtr := Some this\<rparr>"

definition setEntityAisObject ::
  "GraphicsEntity \<Rightarrow> AIS_InteractiveObject option \<Rightarrow> GraphicsEntity" where
  "setEntityAisObject entity obj = entity\<lparr>m_aisObject := obj\<rparr>"

text \<open>
  \<^verbatim>\<open>GraphicsShapeEntityDriver::supportStatus\<close>. The test for a triangulation attribute
  guards a body that is commented out, so both of its branches fall through to
  \<open>Support_None\<close>.
\<close>

definition GraphicsShapeEntityDriver_supportStatus :: "TDF_Label \<Rightarrow> Support" where
  "GraphicsShapeEntityDriver_supportStatus label =
     (if XCaf_isShape label then Support_Complete
      else if CafUtils_hasAttribute_Triangulation label then Support_None
      else Support_None)"

definition GraphicsMeshEntityDriver_supportStatus :: "TDF_Label \<Rightarrow> Support" where
  "GraphicsMeshEntityDriver_supportStatus label =
     (if CafUtils_hasAttribute_Triangulation label then Support_Complete
      else if XCaf_isShape label then
        (case XCaf_shape label of
           Some shape \<Rightarrow> if ShapeType shape = TopAbs_FACE then Support_Partial else Support_None
         | None \<Rightarrow> Support_None)
      else Support_None)"

text \<open>
  \<^verbatim>\<open>GraphicsShapeEntityDriver::createEntity\<close>; \<open>this\<close> is the address of the driver. The
  line aspect is black, solid, of width 1.
\<close>

definition GraphicsShapeEntityDriver_createEntity :: "DriverPtr \<Rightarrow> TDF_Label \<Rightarrow> GraphicsEntity" where
  "GraphicsShapeEntityDriver_createEntity this label =
     (let entity = initEntity this GraphicsEntity_default label in
      if XCaf_isShape label then
        (let gpx0 = new_XCAFPrs_AISObject label;
             gpx1 = gpx0\<lparr>DisplayMode := AIS_Shaded\<rparr>;
             gpx2 = gpx1\<lparr>FaceBoundaryDraw := True\<rparr>;
             gpx3 = gpx2\<lparr>FaceBoundaryAspect :=
                      Some \<lparr>lineColor = ''Quantity_NOC_BLACK'', lineType = Aspect_TOL_SOLID,
                            lineWidth = 1\<rparr>\<rparr>;
             gpx4 = gpx3\<lparr>IsoOnTriangulation := True\<rparr>
         in setEntityAisObject entity (Some gpx4))
      else if CafUtils_hasAttribute_Triangulation label then entity
      else entity)"


section \<open>Display modes\<close>

text \<open>
  An \<^verbatim>\<open>Enumeration\<close> is the list of its items in the order given to its constructor.
\<close>

record Enumeration_Item =
  itemValue :: int
  itemName :: string
  itemDescription :: string

type_synonym Enumeration = "Enumeration_Item list"

text \<open>
  Modelled from the spec: \<^verbatim>\<open>Enumeration::findIndex\<close> belongs to
  \<^verbatim>\<open>property_enumeration.h\<close>, which is not among the sources. A display mode is invalid
  when it is not in the driver's enumeration, and the source tests this as
  \<^verbatim>\<open>findIndex(mode) == -1\<close>: \<open>findIndex\<close> is the position of the first item holding the
  value, and \<open>-1\<close> when no item holds it.
\<close>

fun findIndex_from :: "int \<Rightarrow> Enumeration \<Rightarrow> int \<Rightarrow> int" where
  "findIndex_from i [] v = -1"
| "findIndex_from i (item # items) v =
     (if itemValue item = v then i else findIndex_from (i + 1) items v)"

definition Enumeration_findIndex :: "Enumeration \<Rightarrow> int \<Rightarrow> int" where
  "Enumeration_findIndex enum v = findIndex_from 0 enum v"

definition DisplayMode_Wireframe :: int where "DisplayMode_Wireframe = 0"
definition DisplayMode_HiddenLineRemoval :: int where "DisplayMode_HiddenLineRemoval = 1"
definition DisplayMode_Shaded :: int where "DisplayMode_Shaded = 2"
definition DisplayMode_ShadedWithFaceBoundary :: int where "DisplayMode_ShadedWithFaceBoundary = 3"

definition MeshVS_DMF_WireFrame :: int where "MeshVS_DMF_WireFrame = 1"
definition MeshVS_DMF_Shading :: int where "MeshVS_DMF_Shading = 2"
definition MeshVS_DMF_Shrink :: int where "MeshVS_DMF_Shrink = 3"

text \<open>The enumerations the two constructors pass to \<^verbatim>\<open>setDisplayModes\<close>.\<close>

definition GraphicsShapeEntityDriver_displayModes :: Enumeration where
  "GraphicsShapeEntityDriver_displayModes =
     [\<lparr>itemValue = DisplayMode_Wireframe, itemName = ''WIREFRAME'', itemDescription = []\<rparr>,
      \<lparr>itemValue = DisplayMode_HiddenLineRemoval, itemName = ''HLR'', itemDescription = []\<rparr>,
      \<lparr>itemValue = DisplayMode_Shaded, itemName = ''SHADED'', itemDescription = []\<rparr>,
      \<lparr>itemValue = DisplayMode_ShadedWithFaceBoundary, itemName = ''SHADED_FACE_BNDS'',
       itemDescription = []\<rparr>]"

definition GraphicsMeshEntityDriver_displayModes :: Enumeration where
  "GraphicsMeshEntityDriver_displayModes =
     [\<lparr>itemValue = MeshVS_DMF_WireFrame, itemName = ''WIREFRAME'', itemDescription = []\<rparr>,
      \<lparr>itemValue = MeshVS_DMF_Shading, itemName = ''SHADED'', itemDescription = []\<rparr>,
      \<lparr>itemValue = MeshVS_DMF_Shrink, itemName = ''SHRINK'', itemDescription = []\<rparr>]"

datatype error = invalid_argument string

text \<open>
  The two guards of \<^verbatim>\<open>GraphicsEntityDriver\<close>. Both are \<^verbatim>\<open>const\<close> and take the entity
  by \<^verbatim>\<open>const\<close> reference: they return normally (\<open>Inr ()\<close>) or throw (\<open>Inl\<close>).
\<close>

definition throwIf_invalidDisplayMode :: "Enumeration \<Rightarrow> int \<Rightarrow> error + unit" where
  "throwIf_invalidDisplayMode displayModes mode =
     (if Enumeration_findIndex displayModes mode = -1
      then Inl (invalid_argument ''Invalid display mode'')
      else Inr ())"

definition throwIf_differentDriver :: "DriverPtr \<Rightarrow> GraphicsEntity \<Rightarrow> error + unit" where
  "throwIf_differentDriver this entity =
     (if m_driverPtr entity \<noteq> Some this
      then Inl (invalid_argument ''Invalid driver for graphics entity'')
      else Inr ())"

text \<open>
  What the display-mode functions do once the guards have passed is done by
  \<^verbatim>\<open>GraphicsEntity\<close>, \<^verbatim>\<open>GraphicsScene\<close> and the visualization kernel, none of which is
  among the sources. Their calls are the fields of a record of operations on a state
  \<open>(entity, k)\<close>: the entity and the state \<open>k\<close> of the kernel objects it reaches (its
  scene, the scene's drawer and views, its presentation). The functions below hold for every
  such record.
\<close>

datatype Prs3d_TypeOfHLR = Prs3d_TOH_NotSet | Prs3d_TOH_PolyAlgo | Prs3d_TOH_Algo

record 'k GraphicsKernel =
  SetTypeOfHLR :: "Prs3d_TypeOfHLR \<Rightarrow> GraphicsEntity \<times> 'k \<Rightarrow> GraphicsEntity \<times> 'k"
  EnableDrawHiddenLine :: "GraphicsEntity \<times> 'k \<Rightarrow> GraphicsEntity \<times> 'k"
  DisableDrawHiddenLine :: "GraphicsEntity \<times> 'k \<Rightarrow> GraphicsEntity \<times> 'k"
  SetComputedMode :: "bool \<Rightarrow> GraphicsEntity \<times> 'k \<Rightarrow> GraphicsEntity \<times> 'k"
  aisObject_DisplayMode :: "GraphicsEntity \<times> 'k \<Rightarrow> int"
  aisObject_FaceBoundaryDraw :: "GraphicsEntity \<times> 'k \<Rightarrow> bool"
  aisObject_SetFaceBoundaryDraw :: "bool \<Rightarrow> GraphicsEntity \<times> 'k \<Rightarrow> GraphicsEntity \<times> 'k"
  aisObject_Redisplay :: "GraphicsEntity \<times> 'k \<Rightarrow> GraphicsEntity \<times> 'k"
  entity_setDisplayMode :: "int \<Rightarrow> GraphicsEntity \<times> 'k \<Rightarrow> GraphicsEntity \<times> 'k"
  entity_displayMode :: "GraphicsEntity \<times> 'k \<Rightarrow> int"
  scene_hiddenLineDrawingOn :: "GraphicsEntity \<times> 'k \<Rightarrow> bool"

text \<open>
  \<^verbatim>\<open>GraphicsShapeEntityDriver::applyDisplayMode\<close>. The result pairs what the call did
  (returned, or threw) with the state it left behind.
\<close>

definition GraphicsShapeEntityDriver_applyDisplayMode ::
  "'k GraphicsKernel \<Rightarrow> DriverPtr \<Rightarrow> GraphicsEntity \<times> 'k \<Rightarrow> int
     \<Rightarrow> (error + unit) \<times> (GraphicsEntity \<times> 'k)" where
  "GraphicsShapeEntityDriver_applyDisplayMode K this st mode =
     (case throwIf_differentDriver this (fst st) of
        Inl e \<Rightarrow> (Inl e, st)
      | Inr _ \<Rightarrow>
     (case throwIf_invalidDisplayMode GraphicsShapeEntityDriver_displayModes mode of
        Inl e \<Rightarrow> (Inl e, st)
      | Inr _ \<Rightarrow>
        if mode = DisplayMode_HiddenLineRemoval then
          (let st1 = SetTypeOfHLR K Prs3d_TOH_PolyAlgo st;
               st2 = EnableDrawHiddenLine K st1;
               st3 = SetComputedMode K True st2
           in (Inr (), st3))
        else
          (let st1 = SetTypeOfHLR K Prs3d_TOH_NotSet st;
               st2 = DisableDrawHiddenLine K st1;
               st3 = SetComputedMode K False st2;
               aisDispMode = (if mode = DisplayMode_Wireframe then AIS_WireFrame else AIS_Shaded);
               showFaceBounds = (mode = DisplayMode_ShadedWithFaceBoundary);
               st4 = (if aisObject_DisplayMode K st3 \<noteq> aisDispMode
                      then entity_setDisplayMode K aisDispMode st3 else st3);
               st5 = (if aisObject_FaceBoundaryDraw K st4 \<noteq> showFaceBounds
                      then aisObject_Redisplay K (aisObject_SetFaceBoundaryDraw K showFaceBounds st4)
                      else st4)
           in (Inr (), st5))))"

text \<open>
  \<^verbatim>\<open>GraphicsShapeEntityDriver::currentDisplayMode\<close>: a \<^verbatim>\<open>const\<close> function of a
  \<^verbatim>\<open>const\<close> entity, so it has a result and no state to leave behind.
\<close>

definition GraphicsShapeEntityDriver_currentDisplayMode ::
  "'k GraphicsKernel \<Rightarrow> DriverPtr \<Rightarrow> GraphicsEntity \<times> 'k \<Rightarrow> error + int" where
  "GraphicsShapeEntityDriver_currentDisplayMode K this st =
     (case throwIf_differentDriver this (fst st) of
        Inl e \<Rightarrow> Inl e
      | Inr _ \<Rightarrow>
        if scene_hiddenLineDrawingOn K st then Inr DisplayMode_HiddenLineRemoval
        else
          (let displayMode = entity_displayMode K st in
           if displayMode = AIS_WireFrame then Inr DisplayMode_Wireframe
           else if displayMode = AIS_Shaded then
             (if aisObject_FaceBoundaryDraw K st then Inr DisplayMode_ShadedWithFaceBoundary
              else Inr DisplayMode_Shaded)
           else Inr (-1)))"

definition GraphicsMeshEntityDriver_applyDisplayMode ::
  "'k GraphicsKernel \<Rightarrow> DriverPtr \<Rightarrow> GraphicsEntity \<times> 'k \<Rightarrow> int
     \<Rightarrow> (error + unit) \<times> (GraphicsEntity \<times> 'k)" where
  "GraphicsMeshEntityDriver_applyDisplayMode K this st mode =
     (case throwIf_differentDriver this (fst st) of
        Inl e \<Rightarrow> (Inl e, st)
      | Inr _ \<Rightarrow>
     (case throwIf_invalidDisplayMode GraphicsMeshEntityDriver_displayModes mode of
        Inl e \<Rightarrow> (Inl e, st)
      | Inr _ \<Rightarrow> (Inr (), entity_setDisplayMode K mode st)))"

definition GraphicsMeshEntityDriver_currentDisplayMode ::
  "'k GraphicsKernel \<Rightarrow> DriverPtr \<Rightarrow> GraphicsEntity \<times> 'k \<Rightarrow> error + int" where
  "GraphicsMeshEntityDriver_currentDisplayMode K this st =
     (case throwIf_differentDriver this (fst st) of
        Inl e \<Rightarrow> Inl e
      | Inr _ \<Rightarrow> Inr (entity_displayMode K st))"

text \<open>
  A call has thrown \<^verbatim>\<open>std::invalid_argument\<close> and left the state as it found it.
\<close>

definition threw_invalid_argument_unchanged ::
  "(error + unit) \<times> (GraphicsEntity \<times> 'k) \<Rightarrow> GraphicsEntity \<times> 'k \<Rightarrow> bool" where
  "threw_invalid_argument_unchanged r st =
     (snd r = st \<and> (case fst r of Inl (invalid_argument msg) \<Rightarrow> True | Inr u \<Rightarrow> False))"

definition enumValues :: "Enumeration \<Rightarrow> int set" where
  "enumValues enum = set (map itemValue enum)"


text \<open>
  A kernel to evaluate the display-mode functions at concrete inputs: its state is the
  display mode of the presentation and whether hidden lines are drawn.
\<close>

definition sampleKernel :: "(int \<times> bool) GraphicsKernel" where
  "sampleKernel =
     \<lparr>SetTypeOfHLR = (\<lambda>t st. st),
      EnableDrawHiddenLine = (\<lambda>(e, (m, h)). (e, (m, True))),
      DisableDrawHiddenLine = (\<lambda>(e, (m, h)). (e, (m, False))),
      SetComputedMode = (\<lambda>on st. st),
      aisObject_DisplayMode = (\<lambda>(e, (m, h)). m),
      aisObject_FaceBoundaryDraw = (\<lambda>(e, (m, h)). False),
      aisObject_SetFaceBoundaryDraw = (\<lambda>on st. st),
      aisObject_Redisplay = (\<lambda>st. st),
      entity_setDisplayMode = (\<lambda>mode (e, (m, h)). (e, (mode, h))),
      entity_displayMode = (\<lambda>(e, (m, h)). m),
      scene_hiddenLineDrawingOn = (\<lambda>(e, (m, h)). h)\<rparr>"


section \<open>The side table of \<open>GuiDocument\<close>\<close>

text \<open>
  \<^verbatim>\<open>std::find_if\<close> over a vector: the position of the first element satisfying the
  predicate, \<open>None\<close> for the end iterator. \<^verbatim>\<open>vector::erase\<close> at a position removes that
  one element and keeps the order of the rest.
\<close>

fun find_if :: "('a \<Rightarrow> bool) \<Rightarrow> 'a list \<Rightarrow> nat option" where
  "find_if P [] = None"
| "find_if P (x # xs) = (if P x then Some 0 else map_option Suc (find_if P xs))"

definition vector_erase :: "nat \<Rightarrow> 'a list \<Rightarrow> 'a list" where
  "vector_erase i xs = take i xs @ drop (Suc i) xs"

type_synonym TreeNodeId = nat

record 'm GraphicsItem =
  graphicsEntity :: GraphicsEntity
  entityTreeNodeId :: TreeNodeId
  gpxTreeNodeMapping :: "'m option"

text \<open>
  The members of \<^verbatim>\<open>GuiDocument\<close> that the mapping functions touch: the vector of items,
  the scene (with its view), the aggregate bounding box, and the values sent with the signal
  \<^verbatim>\<open>graphicsBoundingBoxChanged\<close>, oldest first. The scene \<open>'s\<close>, the boxes \<open>'b\<close> and the
  tree-node mappings \<open>'m\<close> belong to classes that are not among the sources.
\<close>

record ('s, 'b, 'm) GuiDocument =
  m_vecGraphicsItem :: "'m GraphicsItem list"
  m_gfxScene :: 's
  m_gpxBoundingBox :: 'b
  emitted_graphicsBoundingBoxChanged :: "'b list"

text \<open>
  What \<^verbatim>\<open>GuiDocument\<close> calls outside \<^verbatim>\<open>gui_document.cpp\<close>: the document
  (\<open>treeNodeLabel\<close> is \<^verbatim>\<open>DocumentTreeNode(m_document, id).label()\<close>, \<open>documentEntities\<close> the
  ids \<^verbatim>\<open>entityTreeNodeId(i)\<close> for \<^verbatim>\<open>i < entityCount()\<close>), the two driver tables of the
  application, the entity, the scene, and the box utilities. \<open>mapGraphicsOwners\<close> is the loop
  \<^verbatim>\<open>foreachOwner\<close> with \<^verbatim>\<open>mapGraphicsOwner\<close> as its body.
\<close>

record ('s, 'b, 'm) GuiEnvironment =
  documentEntities :: "TreeNodeId list"
  treeNodeLabel :: "TreeNodeId \<Rightarrow> TDF_Label"
  table_createEntity :: "TDF_Label \<Rightarrow> GraphicsEntity"
  table_createMapping :: "TreeNodeId \<Rightarrow> 'm option"
  mapping_selectionMode :: "'m \<Rightarrow> int"
  mapGraphicsOwners :: "AIS_InteractiveObject option \<Rightarrow> int \<Rightarrow> 'm \<Rightarrow> 's \<Rightarrow> 'm"
  entity_setScene :: "GraphicsEntity \<Rightarrow> GraphicsEntity"
  entity_setVisible :: "bool \<Rightarrow> GraphicsEntity \<times> 's \<Rightarrow> GraphicsEntity \<times> 's"
  scene_redraw :: "'s \<Rightarrow> 's"
  scene_eraseObject :: "AIS_InteractiveObject option \<Rightarrow> 's \<Rightarrow> 's"
  scene_activateObjectSelection :: "AIS_InteractiveObject option \<Rightarrow> int \<Rightarrow> 's \<Rightarrow> 's"
  V3dView_fitAll :: "'s \<Rightarrow> 's"
  AisObject_boundingBox :: "AIS_InteractiveObject option \<Rightarrow> 's \<Rightarrow> 'b"
  BndUtils_add :: "'b \<Rightarrow> 'b \<Rightarrow> 'b"
  Bnd_Box_SetVoid :: "'b \<Rightarrow> 'b"

definition findGraphicsItem :: "TreeNodeId \<Rightarrow> ('s, 'b, 'm) GuiDocument \<Rightarrow> nat option" where
  "findGraphicsItem nodeId d =
     find_if (\<lambda>item. entityTreeNodeId item = nodeId) (m_vecGraphicsItem d)"

definition findGraphicsEntity :: "TreeNodeId \<Rightarrow> ('s, 'b, 'm) GuiDocument \<Rightarrow> GraphicsEntity" where
  "findGraphicsEntity nodeId d =
     (case findGraphicsItem nodeId d of
        Some i \<Rightarrow> graphicsEntity (m_vecGraphicsItem d ! i)
      | None \<Rightarrow> GraphicsEntity_default)"

definition mapGraphics ::
  "('s, 'b, 'm) GuiEnvironment \<Rightarrow> TreeNodeId \<Rightarrow> ('s, 'b, 'm) GuiDocument
     \<Rightarrow> ('s, 'b, 'm) GuiDocument" where
  "mapGraphics E nodeId d =
     (let gfxEntity0 = table_createEntity E (treeNodeLabel E nodeId) in
      if m_aisObject gfxEntity0 = None then d
      else
        (let gfxEntity1 = entity_setScene E gfxEntity0;
             (gfxEntity, scene1) = entity_setVisible E True (gfxEntity1, m_gfxScene d);
             scene2 = scene_redraw E scene1;
             (mapping, scene3) =
               (case table_createMapping E nodeId of
                  None \<Rightarrow> (None, scene2)
                | Some m \<Rightarrow>
                    (let selectMode = mapping_selectionMode E m in
                     if selectMode \<noteq> -1 then
                       (let scene' = scene_activateObjectSelection E (m_aisObject gfxEntity)
                                       selectMode scene2
                        in (Some (mapGraphicsOwners E (m_aisObject gfxEntity) selectMode m scene'),
                            scene'))
                     else (Some m, scene2)));
             scene4 = V3dView_fitAll E scene3;
             itemBndBox = AisObject_boundingBox E (m_aisObject gfxEntity) scene4;
             item = \<lparr>graphicsEntity = gfxEntity, entityTreeNodeId = nodeId,
                     gpxTreeNodeMapping = mapping\<rparr>
         in d\<lparr>m_vecGraphicsItem := m_vecGraphicsItem d @ [item],
               m_gfxScene := scene4,
               m_gpxBoundingBox := BndUtils_add E (m_gpxBoundingBox d) itemBndBox\<rparr>))"

definition onDocumentEntityAdded ::
  "('s, 'b, 'm) GuiEnvironment \<Rightarrow> TreeNodeId \<Rightarrow> ('s, 'b, 'm) GuiDocument
     \<Rightarrow> ('s, 'b, 'm) GuiDocument" where
  "onDocumentEntityAdded E nodeId d =
     (let d1 = mapGraphics E nodeId d in
      d1\<lparr>emitted_graphicsBoundingBoxChanged :=
            emitted_graphicsBoundingBoxChanged d1 @ [m_gpxBoundingBox d1]\<rparr>)"

text \<open>The loop that recomputes the bounding box over the items that remain.\<close>

definition recomputeBoundingBox ::
  "('s, 'b, 'm) GuiEnvironment \<Rightarrow> 's \<Rightarrow> 'b \<Rightarrow> 'm GraphicsItem list \<Rightarrow> 'b" where
  "recomputeBoundingBox E scene box items =
     foldl (\<lambda>b item. BndUtils_add E b
                        (AisObject_boundingBox E (m_aisObject (graphicsEntity item)) scene))
           box items"

definition onDocumentEntityAboutToBeDestroyed ::
  "('s, 'b, 'm) GuiEnvironment \<Rightarrow> TreeNodeId \<Rightarrow> ('s, 'b, 'm) GuiDocument
     \<Rightarrow> ('s, 'b, 'm) GuiDocument" where
  "onDocumentEntityAboutToBeDestroyed E nodeId d =
     (case findGraphicsItem nodeId d of
        None \<Rightarrow> d
      | Some i \<Rightarrow>
        (let gfxEntity = graphicsEntity (m_vecGraphicsItem d ! i);
             scene1 = scene_eraseObject E (m_aisObject gfxEntity) (m_gfxScene d);
             items = vector_erase i (m_vecGraphicsItem d);
             scene2 = scene_redraw E scene1;
             box = recomputeBoundingBox E scene2 (Bnd_Box_SetVoid E (m_gpxBoundingBox d)) items
         in \<lparr>m_vecGraphicsItem = items, m_gfxScene = scene2, m_gpxBoundingBox = box,
             emitted_graphicsBoundingBoxChanged =
               emitted_graphicsBoundingBoxChanged d @ [box]\<rparr>))"

text \<open>
  The part of the constructor that fills the table: an empty vector, then \<open>mapGraphics\<close> for
  each entity the document already has, in order.
\<close>

fun mapGraphics_each ::
  "('s, 'b, 'm) GuiEnvironment \<Rightarrow> TreeNodeId list \<Rightarrow> ('s, 'b, 'm) GuiDocument
     \<Rightarrow> ('s, 'b, 'm) GuiDocument" where
  "mapGraphics_each E [] d = d"
| "mapGraphics_each E (nodeId # nodeIds) d = mapGraphics_each E nodeIds (mapGraphics E nodeId d)"

definition GuiDocument_construct ::
  "('s, 'b, 'm) GuiEnvironment \<Rightarrow> 's \<Rightarrow> 'b \<Rightarrow> ('s, 'b, 'm) GuiDocument" where
  "GuiDocument_construct E scene0 box0 =
     mapGraphics_each E (documentEntities E)
       \<lparr>m_vecGraphicsItem = [], m_gfxScene = scene0, m_gpxBoundingBox = box0,
        emitted_graphicsBoundingBoxChanged = []\<rparr>"

text \<open>The two signals of the document that change the table, and their delivery in order.\<close>

datatype DocumentSignal = entityAdded TreeNodeId | entityAboutToBeDestroyed TreeNodeId

fun deliver ::
  "('s, 'b, 'm) GuiEnvironment \<Rightarrow> DocumentSignal list \<Rightarrow> ('s, 'b, 'm) GuiDocument
     \<Rightarrow> ('s, 'b, 'm) GuiDocument" where
  "deliver E [] d = d"
| "deliver E (entityAdded nodeId # sigs) d = deliver E sigs (onDocumentEntityAdded E nodeId d)"
| "deliver E (entityAboutToBeDestroyed nodeId # sigs) d =
     deliver E sigs (onDocumentEntityAboutToBeDestroyed E nodeId d)"

text \<open>
  The node ids the table is said to hold after a history of calls: those for which
  \<open>mapGraphics\<close> produced a non-null presentation object and which have not been removed
  since. \<open>S\<close> is the set before the history.
\<close>

definition producesAisObject :: "('s, 'b, 'm) GuiEnvironment \<Rightarrow> TreeNodeId \<Rightarrow> bool" where
  "producesAisObject E nodeId =
     (m_aisObject (table_createEntity E (treeNodeLabel E nodeId)) \<noteq> None)"

fun mappedNotRemoved ::
  "('s, 'b, 'm) GuiEnvironment \<Rightarrow> TreeNodeId set \<Rightarrow> DocumentSignal list \<Rightarrow> TreeNodeId set" where
  "mappedNotRemoved E S [] = S"
| "mappedNotRemoved E S (entityAdded nodeId # sigs) =
     mappedNotRemoved E (if producesAisObject E nodeId then insert nodeId S else S) sigs"
| "mappedNotRemoved E S (entityAboutToBeDestroyed nodeId # sigs) =
     mappedNotRemoved E (S - {nodeId}) sigs"

text \<open>
  The whole history of a document: the constructor maps the entities the document has, as
  \<open>entityAdded\<close> would, then the signals arrive.
\<close>

definition history :: "('s, 'b, 'm) GuiEnvironment \<Rightarrow> DocumentSignal list \<Rightarrow> DocumentSignal list" where
  "history E sigs = map entityAdded (documentEntities E) @ sigs"

text \<open>
  The table agrees with a set \<open>S\<close> of node ids at \<open>nodeId\<close>: for an id of \<open>S\<close> there is
  exactly one entry and \<open>findGraphicsEntity\<close> returns its entity; for any other id there is
  no entry and \<open>findGraphicsEntity\<close> returns the default entity.
\<close>

definition tableAgreesAt ::
  "('s, 'b, 'm) GuiDocument \<Rightarrow> TreeNodeId set \<Rightarrow> TreeNodeId \<Rightarrow> bool" where
  "tableAgreesAt d S nodeId =
     (if nodeId \<in> S
      then map graphicsEntity
             (filter (\<lambda>item. entityTreeNodeId item = nodeId) (m_vecGraphicsItem d))
           = [findGraphicsEntity nodeId d]
      else filter (\<lambda>item. entityTreeNodeId item = nodeId) (m_vecGraphicsItem d) = []
           \<and> findGraphicsEntity nodeId d = GraphicsEntity_default)"

text \<open>
  No node id is mapped while the table holds it: every \<open>entityAdded\<close> of the history names
  an id that is not in the set at that moment (one never mapped, one whose mapping produced
  no presentation object, or one removed since).
\<close>

fun addedOnlyWhenAbsent ::
  "('s, 'b, 'm) GuiEnvironment \<Rightarrow> TreeNodeId set \<Rightarrow> DocumentSignal list \<Rightarrow> bool" where
  "addedOnlyWhenAbsent E S [] = True"
| "addedOnlyWhenAbsent E S (entityAdded nodeId # sigs) =
     (nodeId \<notin> S
      \<and> addedOnlyWhenAbsent E (if producesAisObject E nodeId then insert nodeId S else S) sigs)"
| "addedOnlyWhenAbsent E S (entityAboutToBeDestroyed nodeId # sigs) =
     addedOnlyWhenAbsent E (S - {nodeId}) sigs"

text \<open>
  An environment to evaluate the functions at concrete inputs. Nodes with an even id carry a
  solid and are given to the shape driver at address 16; nodes with an odd id carry nothing
  and get the default entity. The scene counts its redraws; a box is the list of the
  presentation objects added to it.
\<close>

definition sampleLabel :: "TreeNodeId \<Rightarrow> TDF_Label" where
  "sampleLabel nodeId =
     (if even nodeId
      then \<lparr>labelEntry = [0, nodeId], attrShape = Some \<lparr>TShape = nodeId, ShapeType = TopAbs_SOLID\<rparr>,
            attrTriangulation = None\<rparr>
      else \<lparr>labelEntry = [0, nodeId], attrShape = None, attrTriangulation = None\<rparr>)"

definition sampleEnvironment ::
  "TreeNodeId list \<Rightarrow> (nat, AIS_InteractiveObject option list, unit) GuiEnvironment" where
  "sampleEnvironment nodeIds =
     \<lparr>documentEntities = nodeIds,
      treeNodeLabel = sampleLabel,
      table_createEntity =
        (\<lambda>label. if XCaf_isShape label then GraphicsShapeEntityDriver_createEntity 16 label
                  else GraphicsEntity_default),
      table_createMapping = (\<lambda>nodeId. None),
      mapping_selectionMode = (\<lambda>m. -1),
      mapGraphicsOwners = (\<lambda>obj mode m scene. m),
      entity_setScene = (\<lambda>entity. entity\<lparr>m_gfxScenePtr := Some 64\<rparr>),
      entity_setVisible = (\<lambda>on st. st),
      scene_redraw = Suc,
      scene_eraseObject = (\<lambda>obj scene. scene),
      scene_activateObjectSelection = (\<lambda>obj mode scene. scene),
      V3dView_fitAll = (\<lambda>scene. scene),
      AisObject_boundingBox = (\<lambda>obj scene. [obj]),
      BndUtils_add = (\<lambda>box other. box @ other),
      Bnd_Box_SetVoid = (\<lambda>box. [])\<rparr>"


text \<open>
  The invariant behind the table: the node ids of the items are pairwise different and make
  up the set \<open>S\<close>.
\<close>

definition tableHolds :: "('s, 'b, 'm) GuiDocument \<Rightarrow> TreeNodeId set \<Rightarrow> bool" where
  "tableHolds d S =
     (distinct (map entityTreeNodeId (m_vecGraphicsItem d))
      \<and> set (map entityTreeNodeId (m_vecGraphicsItem d)) = S)"


section \<open>The exporters\<close>

text \<open>
  Modelled from the spec: the class \<^verbatim>\<open>ApplicationItem\<close> is declared in
  \<^verbatim>\<open>application_item.h\<close>, which is not among the sources. An item is a document, a node of
  a document's tree, or neither (the default-constructed item). \<^verbatim>\<open>document()\<close> is the
  document itself or the one the node belongs to, and null for an item that is neither. A
  \<^verbatim>\<open>DocumentPtr\<close> is compared by the address it holds.
\<close>

type_synonym DocumentPtr = nat

datatype ApplicationItem =
  AppItem_Null
  | AppItem_Document DocumentPtr
  | AppItem_DocumentTreeNode DocumentPtr TreeNodeId TDF_Label

fun isDocument :: "ApplicationItem \<Rightarrow> bool" where
  "isDocument (AppItem_Document doc) = True"
| "isDocument _ = False"

fun isDocumentTreeNode :: "ApplicationItem \<Rightarrow> bool" where
  "isDocumentTreeNode (AppItem_DocumentTreeNode doc nodeId label) = True"
| "isDocumentTreeNode _ = False"

fun document :: "ApplicationItem \<Rightarrow> DocumentPtr option" where
  "document AppItem_Null = None"
| "document (AppItem_Document doc) = Some doc"
| "document (AppItem_DocumentTreeNode doc nodeId label) = Some doc"

fun documentTreeNode_label :: "ApplicationItem \<Rightarrow> TDF_Label" where
  "documentTreeNode_label (AppItem_DocumentTreeNode doc nodeId label) = label"
| "documentTreeNode_label _ = TDF_Label_null"

datatype OccGltfWriter_Format = Format_Json | Format_Binary

record OccGltfWriter =
  m_document :: "DocumentPtr option"
  m_seqRootLabel :: "TDF_Label list"
  m_params_format :: OccGltfWriter_Format

text \<open>The body of the loop of \<^verbatim>\<open>OccGltfWriter::transfer\<close>, for one item of the span.\<close>

definition OccGltfWriter_transfer_item :: "OccGltfWriter \<Rightarrow> ApplicationItem \<Rightarrow> OccGltfWriter" where
  "OccGltfWriter_transfer_item w appItem =
     (if isDocument appItem \<and> m_document w = None then w\<lparr>m_document := document appItem\<rparr>
      else if isDocumentTreeNode appItem then
        (let w1 = (if m_document w = None then w\<lparr>m_document := document appItem\<rparr> else w) in
         if document appItem = m_document w1
         then w1\<lparr>m_seqRootLabel := m_seqRootLabel w1 @ [documentTreeNode_label appItem]\<rparr>
         else w1)
      else w)"

fun OccGltfWriter_transfer_loop :: "OccGltfWriter \<Rightarrow> ApplicationItem list \<Rightarrow> OccGltfWriter" where
  "OccGltfWriter_transfer_loop w [] = w"
| "OccGltfWriter_transfer_loop w (appItem # spanAppItem) =
     OccGltfWriter_transfer_loop (OccGltfWriter_transfer_item w appItem) spanAppItem"

text \<open>\<^verbatim>\<open>OccGltfWriter::transfer\<close>: the value returned and the writer it leaves.\<close>

definition OccGltfWriter_transfer ::
  "OccGltfWriter \<Rightarrow> ApplicationItem list \<Rightarrow> bool \<times> OccGltfWriter" where
  "OccGltfWriter_transfer w spanAppItem =
     (let w0 = w\<lparr>m_document := None, m_seqRootLabel := []\<rparr>;
          w1 = OccGltfWriter_transfer_loop w0 spanAppItem
      in if m_document w1 = None then (False, w1) else (True, w1))"

text \<open>
  Writing goes through the kernel's \<^verbatim>\<open>RWGltf_CafWriter::Perform\<close> (of a whole document,
  or of a sequence of root labels) and, for VRML, through a \<^verbatim>\<open>std::ofstream\<close>. Both act on
  the files, \<open>'fs\<close>; their effect and their success are parameters.
\<close>

record 'fs RWGltf_CafWriter =
  Perform_document :: "string \<Rightarrow> bool \<Rightarrow> DocumentPtr \<Rightarrow> 'fs \<Rightarrow> bool \<times> 'fs"
  Perform_rootLabels :: "string \<Rightarrow> bool \<Rightarrow> DocumentPtr \<Rightarrow> TDF_Label list \<Rightarrow> 'fs \<Rightarrow> bool \<times> 'fs"

definition OccGltfWriter_writeFile ::
  "'fs RWGltf_CafWriter \<Rightarrow> OccGltfWriter \<Rightarrow> string \<Rightarrow> 'fs \<Rightarrow> bool \<times> 'fs" where
  "OccGltfWriter_writeFile writer w filepath fs =
     (case m_document w of
        None \<Rightarrow> (False, fs)
      | Some doc \<Rightarrow>
          (let isBinary = (m_params_format w = Format_Binary) in
           if m_seqRootLabel w = [] then Perform_document writer filepath isBinary doc fs
           else Perform_rootLabels writer filepath isBinary doc (m_seqRootLabel w) fs))"

record ('sc, 'fs) ofstream =
  OSD_OpenStream :: "string \<Rightarrow> 'fs \<Rightarrow> bool \<times> 'fs"
  put_scene :: "'sc \<Rightarrow> string \<Rightarrow> 'fs \<Rightarrow> 'fs"
  close_good :: "string \<Rightarrow> 'fs \<Rightarrow> bool \<times> 'fs"

record 'sc OccVrmlWriter =
  m_scene :: "'sc option"

definition OccVrmlWriter_writeFile ::
  "('sc, 'fs) ofstream \<Rightarrow> 'sc OccVrmlWriter \<Rightarrow> string \<Rightarrow> 'fs \<Rightarrow> bool \<times> 'fs" where
  "OccVrmlWriter_writeFile outs w filepath fs =
     (case m_scene w of
        None \<Rightarrow> (False, fs)
      | Some scene \<Rightarrow>
          (let (opened, fs1) = OSD_OpenStream outs filepath fs in
           if opened then close_good outs filepath (put_scene outs scene filepath fs1)
           else (False, fs1)))"

text \<open>
  What \<open>transfer\<close> is said to compute, in the words of its description: the document of the
  first item that is a document or a tree node, and the labels of the tree-node items of that
  document, in the order of the span.
\<close>

fun firstDocument :: "ApplicationItem list \<Rightarrow> DocumentPtr option" where
  "firstDocument [] = None"
| "firstDocument (AppItem_Null # items) = firstDocument items"
| "firstDocument (AppItem_Document doc # items) = Some doc"
| "firstDocument (AppItem_DocumentTreeNode doc nodeId label # items) = Some doc"

fun treeNodeLabelsOf :: "DocumentPtr \<Rightarrow> ApplicationItem list \<Rightarrow> TDF_Label list" where
  "treeNodeLabelsOf doc [] = []"
| "treeNodeLabelsOf doc (AppItem_DocumentTreeNode doc' nodeId label # items) =
     (if doc' = doc then label # treeNodeLabelsOf doc items else treeNodeLabelsOf doc items)"
| "treeNodeLabelsOf doc (appItem # items) = treeNodeLabelsOf doc items"

text \<open>
  A kernel writer and a stream to evaluate the exporters at concrete inputs: the files are
  the list of paths written, and every operation succeeds.
\<close>

definition sampleGltfWriter :: "string list RWGltf_CafWriter" where
  "sampleGltfWriter =
     \<lparr>Perform_document = (\<lambda>filepath isBinary doc fs. (True, fs @ [filepath])),
      Perform_rootLabels = (\<lambda>filepath isBinary doc labels fs. (True, fs @ [filepath]))\<rparr>"

definition sampleStream :: "(nat, string list) ofstream" where
  "sampleStream =
     \<lparr>OSD_OpenStream = (\<lambda>filepath fs. (True, fs @ [filepath])),
      put_scene = (\<lambda>scene filepath fs. fs),
      close_good = (\<lambda>filepath fs. (True, fs))\<rparr>"


section \<open>Support status of the two drivers\<close>

text \<open>
  Claim C1. For every label the shape driver answers \<open>Support_Complete\<close> when
  \<open>XCaf_isShape\<close> holds of it and \<open>Support_None\<close> otherwise; a label that carries a
  triangulation attribute and no shape gets \<open>Support_None\<close>.
\<close>

theorem shape_driver_supportStatus:
  "GraphicsShapeEntityDriver_supportStatus label =
     (if XCaf_isShape label then Support_Complete else Support_None)
   \<and> (CafUtils_hasAttribute_Triangulation label \<and> \<not> XCaf_isShape label
        \<longrightarrow> GraphicsShapeEntityDriver_supportStatus label = Support_None)"
  by (simp add: GraphicsShapeEntityDriver_supportStatus_def)

theorem shape_driver_supportStatus_witness:
  "CafUtils_hasAttribute_Triangulation \<lparr>labelEntry = [0, 1], attrShape = None, attrTriangulation = Some 7\<rparr>
   \<and> \<not> XCaf_isShape \<lparr>labelEntry = [0, 1], attrShape = None, attrTriangulation = Some 7\<rparr>
   \<and> GraphicsShapeEntityDriver_supportStatus
        \<lparr>labelEntry = [0, 1], attrShape = None, attrTriangulation = Some 7\<rparr> = Support_None"
  using shape_driver_supportStatus
          [of "\<lparr>labelEntry = [0, 1], attrShape = None, attrTriangulation = Some 7\<rparr>"]
  by (simp add: CafUtils_hasAttribute_Triangulation_def XCaf_isShape_def)

text \<open>
  Claim C2. For every label the mesh driver answers \<open>Support_Complete\<close> when the label has
  a triangulation attribute; otherwise \<open>Support_Partial\<close> when the label is a shape whose
  shape type is \<open>TopAbs_FACE\<close>; otherwise \<open>Support_None\<close>.
\<close>

theorem mesh_driver_supportStatus:
  "GraphicsMeshEntityDriver_supportStatus label =
     (if CafUtils_hasAttribute_Triangulation label then Support_Complete
      else if XCaf_isShape label \<and> map_option ShapeType (XCaf_shape label) = Some TopAbs_FACE
        then Support_Partial
      else Support_None)"
  by (auto simp: GraphicsMeshEntityDriver_supportStatus_def XCaf_isShape_def XCaf_shape_def
           split: option.splits)

theorem mesh_driver_supportStatus_witness:
  "GraphicsMeshEntityDriver_supportStatus
     \<lparr>labelEntry = [0, 2], attrShape = Some \<lparr>TShape = 3, ShapeType = TopAbs_FACE\<rparr>,
      attrTriangulation = None\<rparr> = Support_Partial
   \<and> GraphicsMeshEntityDriver_supportStatus
     \<lparr>labelEntry = [0, 2], attrShape = Some \<lparr>TShape = 3, ShapeType = TopAbs_SOLID\<rparr>,
      attrTriangulation = None\<rparr> = Support_None
   \<and> GraphicsMeshEntityDriver_supportStatus
     \<lparr>labelEntry = [0, 2], attrShape = Some \<lparr>TShape = 3, ShapeType = TopAbs_SOLID\<rparr>,
      attrTriangulation = Some 7\<rparr> = Support_Complete"
  using mesh_driver_supportStatus
          [of "\<lparr>labelEntry = [0, 2], attrShape = Some \<lparr>TShape = 3, ShapeType = TopAbs_FACE\<rparr>,
                attrTriangulation = None\<rparr>"]
        mesh_driver_supportStatus
          [of "\<lparr>labelEntry = [0, 2], attrShape = Some \<lparr>TShape = 3, ShapeType = TopAbs_SOLID\<rparr>,
                attrTriangulation = None\<rparr>"]
        mesh_driver_supportStatus
          [of "\<lparr>labelEntry = [0, 2], attrShape = Some \<lparr>TShape = 3, ShapeType = TopAbs_SOLID\<rparr>,
                attrTriangulation = Some 7\<rparr>"]
  by (simp add: CafUtils_hasAttribute_Triangulation_def XCaf_isShape_def XCaf_shape_def)

text \<open>
  Claim C3. The entity the shape driver creates for a label stores that label, points to
  the driver that created it, and has a presentation object exactly when \<open>XCaf_isShape\<close>
  holds of the label; a label with a triangulation attribute and no shape gives an entity
  whose presentation object is null.
\<close>

theorem shape_driver_createEntity:
  "m_label (GraphicsShapeEntityDriver_createEntity this label) = label
   \<and> m_driverPtr (GraphicsShapeEntityDriver_createEntity this label) = Some this
   \<and> (m_aisObject (GraphicsShapeEntityDriver_createEntity this label) \<noteq> None)
       = XCaf_isShape label
   \<and> (CafUtils_hasAttribute_Triangulation label \<and> \<not> XCaf_isShape label
        \<longrightarrow> m_aisObject (GraphicsShapeEntityDriver_createEntity this label) = None)"
  by (simp add: GraphicsShapeEntityDriver_createEntity_def initEntity_def setEntityAisObject_def
        GraphicsEntity_default_def Let_def)

theorem shape_driver_createEntity_witness:
  "CafUtils_hasAttribute_Triangulation \<lparr>labelEntry = [0, 1], attrShape = None, attrTriangulation = Some 7\<rparr>
   \<and> \<not> XCaf_isShape \<lparr>labelEntry = [0, 1], attrShape = None, attrTriangulation = Some 7\<rparr>
   \<and> m_aisObject (GraphicsShapeEntityDriver_createEntity 16
        \<lparr>labelEntry = [0, 1], attrShape = None, attrTriangulation = Some 7\<rparr>) = None
   \<and> m_driverPtr (GraphicsShapeEntityDriver_createEntity 16
        \<lparr>labelEntry = [0, 1], attrShape = None, attrTriangulation = Some 7\<rparr>) = Some 16"
  using shape_driver_createEntity
          [of 16 "\<lparr>labelEntry = [0, 1], attrShape = None, attrTriangulation = Some 7\<rparr>"]
  by (simp add: CafUtils_hasAttribute_Triangulation_def XCaf_isShape_def)


section \<open>The guards of the display-mode functions\<close>

lemma findIndex_from_absent:
  "0 \<le> i \<Longrightarrow> (findIndex_from i items v = -1) = (v \<notin> set (map itemValue items))"
proof (induction items arbitrary: i)
  case Nil
  show ?case by simp
next
  case (Cons item items)
  have step: "(findIndex_from (i + 1) items v = -1) = (v \<notin> set (map itemValue items))"
    using Cons.IH [of "i + 1"] Cons.prems by simp
  show ?case
  proof (cases "itemValue item = v")
    case True
    with Cons.prems show ?thesis by auto
  next
    case False
    with step show ?thesis by simp
  qed
qed

lemma findIndex_absent:
  "(Enumeration_findIndex enum v = -1) = (v \<notin> enumValues enum)"
  by (simp add: Enumeration_findIndex_def enumValues_def findIndex_from_absent)

lemma throwIf_invalidDisplayMode_absent:
  "mode \<notin> enumValues enum
     \<Longrightarrow> throwIf_invalidDisplayMode enum mode = Inl (invalid_argument ''Invalid display mode'')"
  by (simp add: throwIf_invalidDisplayMode_def findIndex_absent)

lemma throwIf_differentDriver_other:
  "m_driverPtr entity \<noteq> Some this
     \<Longrightarrow> throwIf_differentDriver this entity
           = Inl (invalid_argument ''Invalid driver for graphics entity'')"
  by (simp add: throwIf_differentDriver_def)

lemma throwIf_differentDriver_cases:
  "throwIf_differentDriver this entity = Inl (invalid_argument ''Invalid driver for graphics entity'')
   \<or> throwIf_differentDriver this entity = Inr ()"
  by (simp add: throwIf_differentDriver_def)

text \<open>
  With both guards passed, the mesh driver hands the mode to the entity and reads it back
  from the entity: what \<open>currentDisplayMode\<close> returns after \<open>applyDisplayMode\<close> is what
  \<^verbatim>\<open>GraphicsEntity::displayMode\<close> gives after \<^verbatim>\<open>GraphicsEntity::setDisplayMode\<close>, as long
  as the setter leaves the driver pointer alone.
\<close>

lemma mesh_applyDisplayMode_then_currentDisplayMode:
  assumes "m_driverPtr (fst st) = Some this"
    and "mode \<in> enumValues GraphicsMeshEntityDriver_displayModes"
  shows "GraphicsMeshEntityDriver_applyDisplayMode K this st mode
           = (Inr (), entity_setDisplayMode K mode st)"
    and "GraphicsMeshEntityDriver_currentDisplayMode K this (entity_setDisplayMode K mode st)
           = (if m_driverPtr (fst (entity_setDisplayMode K mode st)) = Some this
              then Inr (entity_displayMode K (entity_setDisplayMode K mode st))
              else Inl (invalid_argument ''Invalid driver for graphics entity''))"
proof -
  from assms(2) have "Enumeration_findIndex GraphicsMeshEntityDriver_displayModes mode \<noteq> -1"
    by (simp add: findIndex_absent)
  with assms(1) show "GraphicsMeshEntityDriver_applyDisplayMode K this st mode
           = (Inr (), entity_setDisplayMode K mode st)"
    by (simp add: GraphicsMeshEntityDriver_applyDisplayMode_def throwIf_differentDriver_def
          throwIf_invalidDisplayMode_def)
  show "GraphicsMeshEntityDriver_currentDisplayMode K this (entity_setDisplayMode K mode st)
           = (if m_driverPtr (fst (entity_setDisplayMode K mode st)) = Some this
              then Inr (entity_displayMode K (entity_setDisplayMode K mode st))
              else Inl (invalid_argument ''Invalid driver for graphics entity''))"
    by (simp add: GraphicsMeshEntityDriver_currentDisplayMode_def throwIf_differentDriver_def)
qed

text \<open>
  Claim C9. On both drivers, \<open>applyDisplayMode\<close> and \<open>currentDisplayMode\<close> throw
  \<^verbatim>\<open>std::invalid_argument\<close> whenever the entity's driver pointer is not the driver called;
  \<open>applyDisplayMode\<close> also throws it whenever the mode is not a value of the driver's
  enumeration of display modes. Whenever \<open>applyDisplayMode\<close> throws for one of these reasons
  the state (the entity and all it reaches) is the one the call was given.
  \<open>currentDisplayMode\<close> is \<^verbatim>\<open>const\<close> and has no state to change.
\<close>

theorem display_mode_guards_throw_first:
  "(m_driverPtr (fst st) \<noteq> Some this \<longrightarrow>
      GraphicsShapeEntityDriver_applyDisplayMode K this st mode
        = (Inl (invalid_argument ''Invalid driver for graphics entity''), st)
      \<and> GraphicsMeshEntityDriver_applyDisplayMode K this st mode
        = (Inl (invalid_argument ''Invalid driver for graphics entity''), st)
      \<and> GraphicsShapeEntityDriver_currentDisplayMode K this st
        = Inl (invalid_argument ''Invalid driver for graphics entity'')
      \<and> GraphicsMeshEntityDriver_currentDisplayMode K this st
        = Inl (invalid_argument ''Invalid driver for graphics entity''))
   \<and> (mode \<notin> enumValues GraphicsShapeEntityDriver_displayModes \<longrightarrow>
        threw_invalid_argument_unchanged
          (GraphicsShapeEntityDriver_applyDisplayMode K this st mode) st)
   \<and> (mode \<notin> enumValues GraphicsMeshEntityDriver_displayModes \<longrightarrow>
        threw_invalid_argument_unchanged
          (GraphicsMeshEntityDriver_applyDisplayMode K this st mode) st)
   \<and> (m_driverPtr (fst st) = Some this
        \<and> mode \<notin> enumValues GraphicsShapeEntityDriver_displayModes \<longrightarrow>
        GraphicsShapeEntityDriver_applyDisplayMode K this st mode
          = (Inl (invalid_argument ''Invalid display mode''), st))
   \<and> (m_driverPtr (fst st) = Some this
        \<and> mode \<notin> enumValues GraphicsMeshEntityDriver_displayModes \<longrightarrow>
        GraphicsMeshEntityDriver_applyDisplayMode K this st mode
          = (Inl (invalid_argument ''Invalid display mode''), st))"
proof -
  have other: "m_driverPtr (fst st) \<noteq> Some this \<Longrightarrow>
      GraphicsShapeEntityDriver_applyDisplayMode K this st mode
        = (Inl (invalid_argument ''Invalid driver for graphics entity''), st)
      \<and> GraphicsMeshEntityDriver_applyDisplayMode K this st mode
        = (Inl (invalid_argument ''Invalid driver for graphics entity''), st)
      \<and> GraphicsShapeEntityDriver_currentDisplayMode K this st
        = Inl (invalid_argument ''Invalid driver for graphics entity'')
      \<and> GraphicsMeshEntityDriver_currentDisplayMode K this st
        = Inl (invalid_argument ''Invalid driver for graphics entity'')"
    by (simp add: GraphicsShapeEntityDriver_applyDisplayMode_def
          GraphicsMeshEntityDriver_applyDisplayMode_def
          GraphicsShapeEntityDriver_currentDisplayMode_def
          GraphicsMeshEntityDriver_currentDisplayMode_def throwIf_differentDriver_other)
  have shape_mode: "mode \<notin> enumValues GraphicsShapeEntityDriver_displayModes \<Longrightarrow>
      threw_invalid_argument_unchanged
        (GraphicsShapeEntityDriver_applyDisplayMode K this st mode) st"
    using throwIf_differentDriver_cases [of this "fst st"]
    by (auto simp: GraphicsShapeEntityDriver_applyDisplayMode_def
          threw_invalid_argument_unchanged_def throwIf_invalidDisplayMode_absent)
  have mesh_mode: "mode \<notin> enumValues GraphicsMeshEntityDriver_displayModes \<Longrightarrow>
      threw_invalid_argument_unchanged
        (GraphicsMeshEntityDriver_applyDisplayMode K this st mode) st"
    using throwIf_differentDriver_cases [of this "fst st"]
    by (auto simp: GraphicsMeshEntityDriver_applyDisplayMode_def
          threw_invalid_argument_unchanged_def throwIf_invalidDisplayMode_absent)
  have shape_same: "m_driverPtr (fst st) = Some this
        \<and> mode \<notin> enumValues GraphicsShapeEntityDriver_displayModes \<Longrightarrow>
        GraphicsShapeEntityDriver_applyDisplayMode K this st mode
          = (Inl (invalid_argument ''Invalid display mode''), st)"
    by (simp add: GraphicsShapeEntityDriver_applyDisplayMode_def throwIf_differentDriver_def
          throwIf_invalidDisplayMode_absent)
  have mesh_same: "m_driverPtr (fst st) = Some this
        \<and> mode \<notin> enumValues GraphicsMeshEntityDriver_displayModes \<Longrightarrow>
        GraphicsMeshEntityDriver_applyDisplayMode K this st mode
          = (Inl (invalid_argument ''Invalid display mode''), st)"
    by (simp add: GraphicsMeshEntityDriver_applyDisplayMode_def throwIf_differentDriver_def
          throwIf_invalidDisplayMode_absent)
  from other shape_mode mesh_mode shape_same mesh_same show ?thesis by blast
qed

theorem display_mode_guards_throw_first_witness:
  "m_driverPtr (fst (GraphicsShapeEntityDriver_createEntity 16
       \<lparr>labelEntry = [0, 1], attrShape = Some \<lparr>TShape = 3, ShapeType = TopAbs_SOLID\<rparr>,
        attrTriangulation = None\<rparr>, (AIS_Shaded, False))) \<noteq> Some 32
   \<and> GraphicsMeshEntityDriver_applyDisplayMode sampleKernel 32
        (GraphicsShapeEntityDriver_createEntity 16
           \<lparr>labelEntry = [0, 1], attrShape = Some \<lparr>TShape = 3, ShapeType = TopAbs_SOLID\<rparr>,
            attrTriangulation = None\<rparr>, (AIS_Shaded, False)) MeshVS_DMF_Shrink
       = (Inl (invalid_argument ''Invalid driver for graphics entity''),
          (GraphicsShapeEntityDriver_createEntity 16
             \<lparr>labelEntry = [0, 1], attrShape = Some \<lparr>TShape = 3, ShapeType = TopAbs_SOLID\<rparr>,
              attrTriangulation = None\<rparr>, (AIS_Shaded, False)))
   \<and> m_driverPtr (fst (GraphicsShapeEntityDriver_createEntity 16
       \<lparr>labelEntry = [0, 1], attrShape = Some \<lparr>TShape = 3, ShapeType = TopAbs_SOLID\<rparr>,
        attrTriangulation = None\<rparr>, (AIS_Shaded, False))) = Some 16
   \<and> 7 \<notin> enumValues GraphicsShapeEntityDriver_displayModes
   \<and> GraphicsShapeEntityDriver_applyDisplayMode sampleKernel 16
        (GraphicsShapeEntityDriver_createEntity 16
           \<lparr>labelEntry = [0, 1], attrShape = Some \<lparr>TShape = 3, ShapeType = TopAbs_SOLID\<rparr>,
            attrTriangulation = None\<rparr>, (AIS_Shaded, False)) 7
       = (Inl (invalid_argument ''Invalid display mode''),
          (GraphicsShapeEntityDriver_createEntity 16
             \<lparr>labelEntry = [0, 1], attrShape = Some \<lparr>TShape = 3, ShapeType = TopAbs_SOLID\<rparr>,
              attrTriangulation = None\<rparr>, (AIS_Shaded, False)))
   \<and> 0 \<notin> enumValues GraphicsMeshEntityDriver_displayModes
   \<and> threw_invalid_argument_unchanged
        (GraphicsMeshEntityDriver_applyDisplayMode sampleKernel 16
          (GraphicsShapeEntityDriver_createEntity 16
             \<lparr>labelEntry = [0, 1], attrShape = Some \<lparr>TShape = 3, ShapeType = TopAbs_SOLID\<rparr>,
              attrTriangulation = None\<rparr>, (AIS_Shaded, False)) 0)
        (GraphicsShapeEntityDriver_createEntity 16
           \<lparr>labelEntry = [0, 1], attrShape = Some \<lparr>TShape = 3, ShapeType = TopAbs_SOLID\<rparr>,
            attrTriangulation = None\<rparr>, (AIS_Shaded, False))"
proof -
  let ?st = "(GraphicsShapeEntityDriver_createEntity 16
           \<lparr>labelEntry = [0, 1], attrShape = Some \<lparr>TShape = 3, ShapeType = TopAbs_SOLID\<rparr>,
            attrTriangulation = None\<rparr>, (AIS_Shaded, False))"
  have d16: "m_driverPtr (fst ?st) = Some 16"
    by (simp add: GraphicsShapeEntityDriver_createEntity_def initEntity_def
          setEntityAisObject_def Let_def)
  have d32: "m_driverPtr (fst ?st) \<noteq> Some 32"
    using d16 by simp
  have s7: "7 \<notin> enumValues GraphicsShapeEntityDriver_displayModes"
    by (simp add: enumValues_def GraphicsShapeEntityDriver_displayModes_def
          DisplayMode_Wireframe_def DisplayMode_HiddenLineRemoval_def DisplayMode_Shaded_def
          DisplayMode_ShadedWithFaceBoundary_def)
  have m0: "0 \<notin> enumValues GraphicsMeshEntityDriver_displayModes"
    by (simp add: enumValues_def GraphicsMeshEntityDriver_displayModes_def
          MeshVS_DMF_WireFrame_def MeshVS_DMF_Shading_def MeshVS_DMF_Shrink_def)
  show ?thesis
    using display_mode_guards_throw_first [of ?st 32 sampleKernel MeshVS_DMF_Shrink]
          display_mode_guards_throw_first [of ?st 16 sampleKernel 7]
          display_mode_guards_throw_first [of ?st 16 sampleKernel 0]
          d16 d32 s7 m0
    by blast
qed


section \<open>The side table of \<open>GuiDocument\<close>: helper facts\<close>

lemma find_if_None_iff: "(find_if P xs = None) = (\<forall>x \<in> set xs. \<not> P x)"
  by (induction xs) auto

lemma find_if_Some:
  "find_if P xs = Some i \<Longrightarrow> i < length xs \<and> P (xs ! i) \<and> (\<forall>j < i. \<not> P (xs ! j))"
proof (induction xs arbitrary: i)
  case Nil
  then show ?case by simp
next
  case (Cons x xs)
  show ?case
  proof (cases "P x")
    case True
    with Cons.prems show ?thesis by simp
  next
    case False
    with Cons.prems obtain k where k: "find_if P xs = Some k" "i = Suc k"
      by auto
    from Cons.IH [OF k(1)] False k(2) show ?thesis
      by (auto simp: nth_Cons split: nat.splits)
  qed
qed

lemma find_if_distinct_filter:
  "distinct (map f xs) \<Longrightarrow> find_if (\<lambda>x. f x = v) xs = Some i
     \<Longrightarrow> filter (\<lambda>x. f x = v) xs = [xs ! i]"
proof (induction xs arbitrary: i)
  case Nil
  then show ?case by simp
next
  case (Cons x xs)
  show ?case
  proof (cases "f x = v")
    case True
    with Cons.prems have "v \<notin> f ` set xs" by auto
    then have "filter (\<lambda>x. f x = v) xs = []"
      by (auto simp: filter_empty_conv)
    with True Cons.prems show ?thesis by simp
  next
    case False
    with Cons.prems obtain k where k: "find_if (\<lambda>x. f x = v) xs = Some k" "i = Suc k"
      by auto
    from Cons.prems have "distinct (map f xs)" by simp
    from Cons.IH [OF this k(1)] False k(2) show ?thesis by simp
  qed
qed

lemma vector_erase_distinct:
  assumes "distinct (map f xs)" and "i < length xs"
  shows "distinct (map f (vector_erase i xs))
         \<and> set (map f (vector_erase i xs)) = set (map f xs) - {f (xs ! i)}"
proof -
  have split: "xs = take i xs @ xs ! i # drop (Suc i) xs"
    using assms(2) by (rule id_take_nth_drop)
  have "distinct (map f (take i xs @ xs ! i # drop (Suc i) xs))"
    using assms(1) split by simp
  then have parts: "distinct (map f (take i xs))" "distinct (map f (drop (Suc i) xs))"
    "f (xs ! i) \<notin> f ` set (take i xs)" "f (xs ! i) \<notin> f ` set (drop (Suc i) xs)"
    "f ` set (take i xs) \<inter> f ` set (drop (Suc i) xs) = {}"
    by auto
  have "set (map f xs) = f ` set (take i xs) \<union> {f (xs ! i)} \<union> f ` set (drop (Suc i) xs)"
    by (subst split) auto
  with parts show ?thesis
    by (auto simp: vector_erase_def)
qed

lemma tableHolds_agrees: "tableHolds d S \<Longrightarrow> tableAgreesAt d S nodeId"
proof -
  assume h: "tableHolds d S"
  show ?thesis
  proof (cases "nodeId \<in> S")
    case True
    with h have "\<not> (\<forall>x \<in> set (m_vecGraphicsItem d). \<not> entityTreeNodeId x = nodeId)"
      by (auto simp: tableHolds_def)
    then obtain i where i: "find_if (\<lambda>x. entityTreeNodeId x = nodeId) (m_vecGraphicsItem d) = Some i"
      using find_if_None_iff [of "\<lambda>x. entityTreeNodeId x = nodeId" "m_vecGraphicsItem d"] by auto
    from h have "distinct (map entityTreeNodeId (m_vecGraphicsItem d))"
      by (simp add: tableHolds_def)
    from find_if_distinct_filter [OF this i] i True show ?thesis
      by (simp add: tableAgreesAt_def findGraphicsEntity_def findGraphicsItem_def)
  next
    case False
    with h have none: "\<forall>x \<in> set (m_vecGraphicsItem d). \<not> entityTreeNodeId x = nodeId"
      by (auto simp: tableHolds_def)
    then have "find_if (\<lambda>x. entityTreeNodeId x = nodeId) (m_vecGraphicsItem d) = None"
      by (simp add: find_if_None_iff)
    with none False show ?thesis
      by (simp add: tableAgreesAt_def findGraphicsEntity_def findGraphicsItem_def filter_empty_conv)
  qed
qed

lemma mapGraphics_items:
  "m_vecGraphicsItem (mapGraphics E nodeId d) = m_vecGraphicsItem d
   \<and> \<not> producesAisObject E nodeId
   \<or> (\<exists>item. m_vecGraphicsItem (mapGraphics E nodeId d) = m_vecGraphicsItem d @ [item]
        \<and> entityTreeNodeId item = nodeId \<and> producesAisObject E nodeId)"
  by (auto simp: mapGraphics_def producesAisObject_def Let_def split: prod.splits)

lemma mapGraphics_tableHolds:
  assumes "tableHolds d S" and "nodeId \<notin> S"
  shows "tableHolds (mapGraphics E nodeId d) (if producesAisObject E nodeId then insert nodeId S else S)"
  using assms mapGraphics_items [of E nodeId d]
  by (auto simp: tableHolds_def)

lemma onDocumentEntityAdded_items:
  "m_vecGraphicsItem (onDocumentEntityAdded E nodeId d) = m_vecGraphicsItem (mapGraphics E nodeId d)"
  by (simp add: onDocumentEntityAdded_def Let_def)

lemma onDocumentEntityAdded_tableHolds:
  assumes "tableHolds d S" and "nodeId \<notin> S"
  shows "tableHolds (onDocumentEntityAdded E nodeId d)
           (if producesAisObject E nodeId then insert nodeId S else S)"
  using mapGraphics_tableHolds [OF assms, of E]
  by (simp add: tableHolds_def onDocumentEntityAdded_items)

lemma onDocumentEntityAboutToBeDestroyed_items:
  "m_vecGraphicsItem (onDocumentEntityAboutToBeDestroyed E nodeId d) =
     (case findGraphicsItem nodeId d of
        None \<Rightarrow> m_vecGraphicsItem d
      | Some i \<Rightarrow> vector_erase i (m_vecGraphicsItem d))"
  by (simp add: onDocumentEntityAboutToBeDestroyed_def Let_def split: option.splits)

lemma onDocumentEntityAboutToBeDestroyed_tableHolds:
  assumes "tableHolds d S"
  shows "tableHolds (onDocumentEntityAboutToBeDestroyed E nodeId d) (S - {nodeId})"
proof (cases "findGraphicsItem nodeId d")
  case None
  then have "\<forall>x \<in> set (m_vecGraphicsItem d). entityTreeNodeId x \<noteq> nodeId"
    by (simp add: findGraphicsItem_def find_if_None_iff)
  with assms have "S - {nodeId} = S" by (auto simp: tableHolds_def)
  with assms None show ?thesis
    by (simp add: tableHolds_def onDocumentEntityAboutToBeDestroyed_items)
next
  case (Some i)
  then have i: "i < length (m_vecGraphicsItem d)" "entityTreeNodeId (m_vecGraphicsItem d ! i) = nodeId"
    using find_if_Some [of "\<lambda>x. entityTreeNodeId x = nodeId" "m_vecGraphicsItem d" i]
    by (simp_all add: findGraphicsItem_def)
  from assms have "distinct (map entityTreeNodeId (m_vecGraphicsItem d))"
    by (simp add: tableHolds_def)
  from vector_erase_distinct [OF this i(1)] i(2) assms Some show ?thesis
    by (simp add: tableHolds_def onDocumentEntityAboutToBeDestroyed_items)
qed

lemma deliver_tableHolds:
  "tableHolds d S \<Longrightarrow> addedOnlyWhenAbsent E S sigs
     \<Longrightarrow> tableHolds (deliver E sigs d) (mappedNotRemoved E S sigs)"
proof (induction sigs arbitrary: d S)
  case Nil
  then show ?case by simp
next
  case (Cons sig sigs)
  show ?case
  proof (cases sig)
    case (entityAdded nodeId)
    with Cons.prems have fresh: "nodeId \<notin> S"
      and rest: "addedOnlyWhenAbsent E (if producesAisObject E nodeId then insert nodeId S else S) sigs"
      by simp_all
    from Cons.IH [OF onDocumentEntityAdded_tableHolds [OF Cons.prems(1) fresh] rest] entityAdded
    show ?thesis by simp
  next
    case (entityAboutToBeDestroyed nodeId)
    with Cons.prems have rest: "addedOnlyWhenAbsent E (S - {nodeId}) sigs" by simp
    from Cons.IH [OF onDocumentEntityAboutToBeDestroyed_tableHolds [OF Cons.prems(1)] rest]
      entityAboutToBeDestroyed
    show ?thesis by simp
  qed
qed

lemma mapGraphics_each_tableHolds:
  "tableHolds d S \<Longrightarrow> addedOnlyWhenAbsent E S (map entityAdded nodeIds)
     \<Longrightarrow> tableHolds (mapGraphics_each E nodeIds d) (mappedNotRemoved E S (map entityAdded nodeIds))"
proof (induction nodeIds arbitrary: d S)
  case Nil
  then show ?case by simp
next
  case (Cons nodeId nodeIds)
  from Cons.prems have fresh: "nodeId \<notin> S"
    and rest: "addedOnlyWhenAbsent E (if producesAisObject E nodeId then insert nodeId S else S)
                 (map entityAdded nodeIds)"
    by simp_all
  from Cons.IH [OF mapGraphics_tableHolds [OF Cons.prems(1) fresh] rest]
  show ?case by simp
qed

lemma mappedNotRemoved_append:
  "mappedNotRemoved E S (xs @ ys) = mappedNotRemoved E (mappedNotRemoved E S xs) ys"
  by (induction E S xs rule: mappedNotRemoved.induct) simp_all

lemma addedOnlyWhenAbsent_append:
  "addedOnlyWhenAbsent E S (xs @ ys)
     = (addedOnlyWhenAbsent E S xs \<and> addedOnlyWhenAbsent E (mappedNotRemoved E S xs) ys)"
  by (induction E S xs rule: addedOnlyWhenAbsent.induct) simp_all

lemma constructed_delivered_tableHolds:
  assumes "addedOnlyWhenAbsent E {} (history E sigs)"
  shows "tableHolds (deliver E sigs (GuiDocument_construct E scene0 box0))
           (mappedNotRemoved E {} (history E sigs))"
proof -
  let ?S1 = "mappedNotRemoved E {} (map entityAdded (documentEntities E))"
  have start: "tableHolds \<lparr>m_vecGraphicsItem = [], m_gfxScene = scene0, m_gpxBoundingBox = box0,
        emitted_graphicsBoundingBoxChanged = []\<rparr> {}"
    by (simp add: tableHolds_def)
  from assms have h1: "addedOnlyWhenAbsent E {} (map entityAdded (documentEntities E))"
    and h2: "addedOnlyWhenAbsent E ?S1 sigs"
    by (simp_all add: history_def addedOnlyWhenAbsent_append)
  have "tableHolds (GuiDocument_construct E scene0 box0) ?S1"
    unfolding GuiDocument_construct_def by (rule mapGraphics_each_tableHolds [OF start h1])
  from deliver_tableHolds [OF this h2] show ?thesis
    by (simp add: history_def mappedNotRemoved_append)
qed

lemmas sample_simps =
  sampleEnvironment_def sampleLabel_def history_def producesAisObject_def XCaf_isShape_def
  GraphicsShapeEntityDriver_createEntity_def initEntity_def setEntityAisObject_def
  GraphicsEntity_default_def new_XCAFPrs_AISObject_def GuiDocument_construct_def
  mapGraphics_def onDocumentEntityAdded_def onDocumentEntityAboutToBeDestroyed_def
  findGraphicsItem_def findGraphicsEntity_def vector_erase_def recomputeBoundingBox_def
  Let_def

lemma sample_fold:
  "foldl (\<lambda>box item.
            BndUtils_add (sampleEnvironment nodeIds) box
              (AisObject_boundingBox (sampleEnvironment nodeIds) (f item) scene))
         box0 items
   = box0 @ map f items"
  by (induction items arbitrary: box0) (simp_all add: sampleEnvironment_def)


section \<open>One entry per mapped node\<close>

text \<open>
  Claim C4, amended. Provided no node id is mapped while the table already holds it (every
  call of \<open>mapGraphics\<close>, from the constructor or on \<open>entityAdded\<close>, names an id with no
  entry at that moment), the table holds exactly one entry for each node id for which
  \<open>mapGraphics\<close> produced a non-null presentation object and which has not been removed
  since; for such an id \<open>findGraphicsEntity\<close> returns the entity of that entry, and for
  every other id it returns the default entity, whose presentation object is null.
\<close>

theorem side_table_one_entry_per_mapped_node:
  "addedOnlyWhenAbsent E {} (history E sigs)
     \<Longrightarrow> tableAgreesAt (deliver E sigs (GuiDocument_construct E scene0 box0))
           (mappedNotRemoved E {} (history E sigs)) nodeId
         \<and> m_aisObject GraphicsEntity_default = None"
proof -
  assume h: "addedOnlyWhenAbsent E {} (history E sigs)"
  let ?d0 = "\<lparr>m_vecGraphicsItem = [], m_gfxScene = scene0, m_gpxBoundingBox = box0,
        emitted_graphicsBoundingBoxChanged = []\<rparr> :: ('a, 'b, 'c) GuiDocument"
  let ?S1 = "mappedNotRemoved E {} (map entityAdded (documentEntities E))"
  have start: "tableHolds ?d0 {}" by (simp add: tableHolds_def)
  from h have h1: "addedOnlyWhenAbsent E {} (map entityAdded (documentEntities E))"
    and h2: "addedOnlyWhenAbsent E ?S1 sigs"
    by (simp_all add: history_def addedOnlyWhenAbsent_append)
  have "tableHolds (GuiDocument_construct E scene0 box0) ?S1"
    unfolding GuiDocument_construct_def by (rule mapGraphics_each_tableHolds [OF start h1])
  from deliver_tableHolds [OF this h2]
  have "tableHolds (deliver E sigs (GuiDocument_construct E scene0 box0))
          (mappedNotRemoved E {} (history E sigs))"
    by (simp add: history_def mappedNotRemoved_append)
  then show ?thesis
    by (simp add: tableHolds_agrees GraphicsEntity_default_def)
qed

theorem side_table_one_entry_per_mapped_node_witness:
  "addedOnlyWhenAbsent (sampleEnvironment [2, 3]) {}
     (history (sampleEnvironment [2, 3])
        [entityAdded 4, entityAboutToBeDestroyed 2, entityAdded 2, entityAdded 5])
   \<and> mappedNotRemoved (sampleEnvironment [2, 3]) {}
        (history (sampleEnvironment [2, 3])
           [entityAdded 4, entityAboutToBeDestroyed 2, entityAdded 2, entityAdded 5]) = {2, 4}
   \<and> map entityTreeNodeId
        (m_vecGraphicsItem
          (deliver (sampleEnvironment [2, 3])
             [entityAdded 4, entityAboutToBeDestroyed 2, entityAdded 2, entityAdded 5]
             (GuiDocument_construct (sampleEnvironment [2, 3]) 0 []))) = [4, 2]
   \<and> tableAgreesAt
        (deliver (sampleEnvironment [2, 3])
           [entityAdded 4, entityAboutToBeDestroyed 2, entityAdded 2, entityAdded 5]
           (GuiDocument_construct (sampleEnvironment [2, 3]) 0 []))
        (mappedNotRemoved (sampleEnvironment [2, 3]) {}
           (history (sampleEnvironment [2, 3])
              [entityAdded 4, entityAboutToBeDestroyed 2, entityAdded 2, entityAdded 5]))
        2"
proof -
  have pre: "addedOnlyWhenAbsent (sampleEnvironment [2, 3]) {}
     (history (sampleEnvironment [2, 3])
        [entityAdded 4, entityAboutToBeDestroyed 2, entityAdded 2, entityAdded 5])"
    by (simp add: sample_simps)
  have live: "mappedNotRemoved (sampleEnvironment [2, 3]) {}
        (history (sampleEnvironment [2, 3])
           [entityAdded 4, entityAboutToBeDestroyed 2, entityAdded 2, entityAdded 5]) = {2, 4}"
    by (auto simp: sample_simps)
  have ids: "map entityTreeNodeId
        (m_vecGraphicsItem
          (deliver (sampleEnvironment [2, 3])
             [entityAdded 4, entityAboutToBeDestroyed 2, entityAdded 2, entityAdded 5]
             (GuiDocument_construct (sampleEnvironment [2, 3]) 0 []))) = [4, 2]"
    by (simp add: sample_simps)
  from pre live ids
    side_table_one_entry_per_mapped_node [OF pre, of 0 "[]" 2]
  show ?thesis by blast
qed

text \<open>
  Claim C4 as first stated has no such proviso, and \<open>mapGraphics\<close> appends without looking
  the id up: mapping node 2 twice leaves two entries for it, while the set of ids mapped and
  not removed holds it once.
\<close>

theorem side_table_duplicate_counterexample:
  "2 \<in> mappedNotRemoved (sampleEnvironment []) {}
          (history (sampleEnvironment []) [entityAdded 2, entityAdded 2])
   \<and> map entityTreeNodeId
        (m_vecGraphicsItem (deliver (sampleEnvironment []) [entityAdded 2, entityAdded 2]
           (GuiDocument_construct (sampleEnvironment []) 0 []))) = [2, 2]
   \<and> \<not> tableAgreesAt
          (deliver (sampleEnvironment []) [entityAdded 2, entityAdded 2]
             (GuiDocument_construct (sampleEnvironment []) 0 []))
          (mappedNotRemoved (sampleEnvironment []) {}
             (history (sampleEnvironment []) [entityAdded 2, entityAdded 2]))
          2"
  by (simp add: sample_simps tableAgreesAt_def)


section \<open>What the two signals change\<close>

text \<open>
  Claim C5, amended. On \<open>entityAboutToBeDestroyed\<close> for a node id that some item has,
  exactly one item is removed: the first one with that id; the items before and after it stay
  as they were and in their order. Provided no two items of the table have the same node id,
  the item removed is the one item with that id and no item with that id is left; the
  proviso holds of every table built by the constructor and the signals as long as no node
  id is mapped while the table already holds it. When no item has the id, the document (item
  list, scene, bounding box, signals sent) is left as it was. On \<open>entityAdded\<close> the item
  list either stays as it was or gets one item for that id appended at its end.
\<close>

theorem entity_signals_change_one_item:
  "((\<exists>item \<in> set (m_vecGraphicsItem d). entityTreeNodeId item = nodeId) \<longrightarrow>
      (\<exists>i < length (m_vecGraphicsItem d).
         entityTreeNodeId (m_vecGraphicsItem d ! i) = nodeId
         \<and> (\<forall>j < i. entityTreeNodeId (m_vecGraphicsItem d ! j) \<noteq> nodeId)
         \<and> m_vecGraphicsItem (onDocumentEntityAboutToBeDestroyed E nodeId d)
             = take i (m_vecGraphicsItem d) @ drop (Suc i) (m_vecGraphicsItem d)))
   \<and> (distinct (map entityTreeNodeId (m_vecGraphicsItem d)) \<longrightarrow>
        nodeId \<notin> set (map entityTreeNodeId
                       (m_vecGraphicsItem (onDocumentEntityAboutToBeDestroyed E nodeId d))))
   \<and> ((\<forall>item \<in> set (m_vecGraphicsItem d). entityTreeNodeId item \<noteq> nodeId) \<longrightarrow>
        onDocumentEntityAboutToBeDestroyed E nodeId d = d)
   \<and> (m_vecGraphicsItem (onDocumentEntityAdded E nodeId d) = m_vecGraphicsItem d
        \<or> (\<exists>item. entityTreeNodeId item = nodeId
              \<and> m_vecGraphicsItem (onDocumentEntityAdded E nodeId d)
                  = m_vecGraphicsItem d @ [item]))
   \<and> (addedOnlyWhenAbsent E {} (history E sigs) \<longrightarrow>
        distinct (map entityTreeNodeId
                   (m_vecGraphicsItem (deliver E sigs (GuiDocument_construct E scene0 box0))))
        \<and> nodeId \<notin> set (map entityTreeNodeId
                       (m_vecGraphicsItem
                          (onDocumentEntityAboutToBeDestroyed E nodeId
                             (deliver E sigs (GuiDocument_construct E scene0 box0))))))"
proof -
  let ?items = "m_vecGraphicsItem d"
  let ?P = "\<lambda>item. entityTreeNodeId item = nodeId"
  have removed: "(\<exists>item \<in> set ?items. entityTreeNodeId item = nodeId) \<Longrightarrow>
      (\<exists>i < length ?items.
         entityTreeNodeId (?items ! i) = nodeId
         \<and> (\<forall>j < i. entityTreeNodeId (?items ! j) \<noteq> nodeId)
         \<and> m_vecGraphicsItem (onDocumentEntityAboutToBeDestroyed E nodeId d)
             = take i ?items @ drop (Suc i) ?items)"
  proof -
    assume "\<exists>item \<in> set ?items. entityTreeNodeId item = nodeId"
    then have "find_if ?P ?items \<noteq> None"
      by (simp add: find_if_None_iff)
    then obtain i where i: "find_if ?P ?items = Some i" by auto
    from find_if_Some [OF i] i show ?thesis
      by (auto simp: onDocumentEntityAboutToBeDestroyed_items findGraphicsItem_def vector_erase_def)
  qed
  have gone: "distinct (map entityTreeNodeId ?items) \<Longrightarrow>
        nodeId \<notin> set (map entityTreeNodeId
                       (m_vecGraphicsItem (onDocumentEntityAboutToBeDestroyed E nodeId d)))"
  proof -
    assume "distinct (map entityTreeNodeId ?items)"
    then have "tableHolds d (set (map entityTreeNodeId ?items))"
      by (simp add: tableHolds_def)
    from onDocumentEntityAboutToBeDestroyed_tableHolds [OF this, of E nodeId]
    show ?thesis by (auto simp: tableHolds_def)
  qed
  have kept: "(\<forall>item \<in> set ?items. entityTreeNodeId item \<noteq> nodeId) \<Longrightarrow>
        onDocumentEntityAboutToBeDestroyed E nodeId d = d"
  proof -
    assume "\<forall>item \<in> set ?items. entityTreeNodeId item \<noteq> nodeId"
    then have "find_if ?P ?items = None"
      by (simp add: find_if_None_iff)
    then show ?thesis
      by (simp add: onDocumentEntityAboutToBeDestroyed_def findGraphicsItem_def)
  qed
  have added: "m_vecGraphicsItem (onDocumentEntityAdded E nodeId d) = ?items
        \<or> (\<exists>item. entityTreeNodeId item = nodeId
              \<and> m_vecGraphicsItem (onDocumentEntityAdded E nodeId d) = ?items @ [item])"
    using mapGraphics_items [of E nodeId d]
    by (auto simp: onDocumentEntityAdded_items)
  have reached: "addedOnlyWhenAbsent E {} (history E sigs) \<Longrightarrow>
        distinct (map entityTreeNodeId
                   (m_vecGraphicsItem (deliver E sigs (GuiDocument_construct E scene0 box0))))
        \<and> nodeId \<notin> set (map entityTreeNodeId
                       (m_vecGraphicsItem
                          (onDocumentEntityAboutToBeDestroyed E nodeId
                             (deliver E sigs (GuiDocument_construct E scene0 box0)))))"
  proof -
    assume "addedOnlyWhenAbsent E {} (history E sigs)"
    from constructed_delivered_tableHolds [OF this, of scene0 box0]
    have holds: "tableHolds (deliver E sigs (GuiDocument_construct E scene0 box0))
                   (mappedNotRemoved E {} (history E sigs))" .
    from onDocumentEntityAboutToBeDestroyed_tableHolds [OF holds, of E nodeId] holds
    show ?thesis by (auto simp: tableHolds_def)
  qed
  from removed gone kept added reached show ?thesis by blast
qed

theorem entity_signals_change_one_item_witness:
  "(\<exists>item \<in> set (m_vecGraphicsItem (GuiDocument_construct (sampleEnvironment [2, 4, 6]) 0 [])).
      entityTreeNodeId item = 4)
   \<and> distinct (map entityTreeNodeId
        (m_vecGraphicsItem (GuiDocument_construct (sampleEnvironment [2, 4, 6]) 0 [])))
   \<and> 4 \<notin> set (map entityTreeNodeId
        (m_vecGraphicsItem
           (onDocumentEntityAboutToBeDestroyed (sampleEnvironment [2, 4, 6]) 4
              (GuiDocument_construct (sampleEnvironment [2, 4, 6]) 0 []))))
   \<and> 3 \<notin> set (map entityTreeNodeId
        (m_vecGraphicsItem (GuiDocument_construct (sampleEnvironment [2, 4, 6]) 0 [])))
   \<and> onDocumentEntityAboutToBeDestroyed (sampleEnvironment [2, 4, 6]) 3
        (GuiDocument_construct (sampleEnvironment [2, 4, 6]) 0 [])
       = GuiDocument_construct (sampleEnvironment [2, 4, 6]) 0 []
   \<and> map entityTreeNodeId
        (m_vecGraphicsItem
           (onDocumentEntityAboutToBeDestroyed (sampleEnvironment [2, 4, 6]) 4
              (GuiDocument_construct (sampleEnvironment [2, 4, 6]) 0 []))) = [2, 6]
   \<and> map entityTreeNodeId
        (m_vecGraphicsItem
           (onDocumentEntityAdded (sampleEnvironment [2, 4, 6]) 8
              (GuiDocument_construct (sampleEnvironment [2, 4, 6]) 0 []))) = [2, 4, 6, 8]
   \<and> addedOnlyWhenAbsent (sampleEnvironment [2, 4, 6]) {}
        (history (sampleEnvironment [2, 4, 6]) [entityAdded 8, entityAboutToBeDestroyed 2])
   \<and> 4 \<notin> set (map entityTreeNodeId
        (m_vecGraphicsItem
           (onDocumentEntityAboutToBeDestroyed (sampleEnvironment [2, 4, 6]) 4
              (deliver (sampleEnvironment [2, 4, 6]) [entityAdded 8, entityAboutToBeDestroyed 2]
                 (GuiDocument_construct (sampleEnvironment [2, 4, 6]) 0 [])))))"
proof -
  define E where "E = sampleEnvironment [2, 4, 6]"
  define d where "d = GuiDocument_construct E 0 []"
  define sigs where "sigs = [entityAdded 8, entityAboutToBeDestroyed 2]"
  have proviso: "addedOnlyWhenAbsent E {} (history E sigs)"
    unfolding E_def sigs_def by (simp add: sample_simps)
  from entity_signals_change_one_item [of d 4 E sigs 0 "[]"]
  have "addedOnlyWhenAbsent E {} (history E sigs) \<longrightarrow>
        distinct (map entityTreeNodeId
                   (m_vecGraphicsItem (deliver E sigs (GuiDocument_construct E 0 []))))
        \<and> 4 \<notin> set (map entityTreeNodeId
                       (m_vecGraphicsItem
                          (onDocumentEntityAboutToBeDestroyed E 4
                             (deliver E sigs (GuiDocument_construct E 0 [])))))"
    by (elim conjE)
  with proviso have "distinct (map entityTreeNodeId
                   (m_vecGraphicsItem (deliver E sigs (GuiDocument_construct E 0 []))))
        \<and> 4 \<notin> set (map entityTreeNodeId
                       (m_vecGraphicsItem
                          (onDocumentEntityAboutToBeDestroyed E 4
                             (deliver E sigs (GuiDocument_construct E 0 [])))))"
    by (rule rev_mp)
  then have reached: "4 \<notin> set (map entityTreeNodeId
                       (m_vecGraphicsItem
                          (onDocumentEntityAboutToBeDestroyed E 4
                             (deliver E sigs (GuiDocument_construct E 0 [])))))"
    by (rule conjunct2)
  have ids: "map entityTreeNodeId (m_vecGraphicsItem d) = [2, 4, 6]"
    unfolding d_def E_def by (simp add: sample_simps)
  have mem: "set (map entityTreeNodeId (m_vecGraphicsItem d)) = {2, 4, 6}"
    by (simp only: ids) simp
  have has4: "\<exists>item \<in> set (m_vecGraphicsItem d). entityTreeNodeId item = 4"
  proof -
    from mem have "4 \<in> entityTreeNodeId ` set (m_vecGraphicsItem d)" by simp
    then show ?thesis by (auto simp: image_iff)
  qed
  have no3': "3 \<notin> set (map entityTreeNodeId (m_vecGraphicsItem d))"
    by (simp only: mem) simp
  have no3: "\<forall>item \<in> set (m_vecGraphicsItem d). entityTreeNodeId item \<noteq> 3"
  proof
    fix item assume "item \<in> set (m_vecGraphicsItem d)"
    then have "entityTreeNodeId item \<in> set (map entityTreeNodeId (m_vecGraphicsItem d))"
      by simp
    with no3' show "entityTreeNodeId item \<noteq> 3" by metis
  qed
  have dist: "distinct (map entityTreeNodeId (m_vecGraphicsItem d))"
    by (simp only: ids) simp
  note thm4 = entity_signals_change_one_item [of d 4 E sigs 0 "[]"]
  note thm3 = entity_signals_change_one_item [of d 3 E sigs 0 "[]"]
  from thm4 have "distinct (map entityTreeNodeId (m_vecGraphicsItem d)) \<longrightarrow>
        4 \<notin> set (map entityTreeNodeId
                       (m_vecGraphicsItem (onDocumentEntityAboutToBeDestroyed E 4 d)))"
    by (elim conjE)
  with dist have gone: "4 \<notin> set (map entityTreeNodeId
        (m_vecGraphicsItem (onDocumentEntityAboutToBeDestroyed E 4 d)))"
    by (rule rev_mp)
  from thm3 have "(\<forall>item \<in> set (m_vecGraphicsItem d). entityTreeNodeId item \<noteq> 3) \<longrightarrow>
        onDocumentEntityAboutToBeDestroyed E 3 d = d"
    by (elim conjE)
  with no3 have kept: "onDocumentEntityAboutToBeDestroyed E 3 d = d"
    by (rule rev_mp)
  have after: "map entityTreeNodeId
        (m_vecGraphicsItem (onDocumentEntityAboutToBeDestroyed E 4 d)) = [2, 6]"
    unfolding d_def E_def
    by (simp add: onDocumentEntityAboutToBeDestroyed_items findGraphicsItem_def vector_erase_def
          sample_simps)
  have added: "map entityTreeNodeId
        (m_vecGraphicsItem (onDocumentEntityAdded E 8 d)) = [2, 4, 6, 8]"
    unfolding d_def E_def by (simp add: onDocumentEntityAdded_items sample_simps)
  from has4 dist gone no3' kept after added proviso reached show ?thesis
    unfolding d_def E_def sigs_def by (intro conjI)
qed

text \<open>
  Claim C5 as first stated has no proviso on the table. On the table that holds node 2
  twice, \<open>entityAboutToBeDestroyed\<close> for node 2 removes the first of the two items: an
  item with that id is left, and \<open>findGraphicsEntity\<close> still finds a presentation object
  for it.
\<close>

theorem removal_leaves_second_entry_counterexample:
  "map entityTreeNodeId
     (m_vecGraphicsItem
        (deliver (sampleEnvironment []) [entityAdded 2, entityAdded 2]
           (GuiDocument_construct (sampleEnvironment []) 0 []))) = [2, 2]
   \<and> map entityTreeNodeId
        (m_vecGraphicsItem
           (onDocumentEntityAboutToBeDestroyed (sampleEnvironment []) 2
              (deliver (sampleEnvironment []) [entityAdded 2, entityAdded 2]
                 (GuiDocument_construct (sampleEnvironment []) 0 [])))) = [2]
   \<and> 2 \<in> set (map entityTreeNodeId
        (m_vecGraphicsItem
           (onDocumentEntityAboutToBeDestroyed (sampleEnvironment []) 2
              (deliver (sampleEnvironment []) [entityAdded 2, entityAdded 2]
                 (GuiDocument_construct (sampleEnvironment []) 0 [])))))
   \<and> m_aisObject
        (findGraphicsEntity 2
           (onDocumentEntityAboutToBeDestroyed (sampleEnvironment []) 2
              (deliver (sampleEnvironment []) [entityAdded 2, entityAdded 2]
                 (GuiDocument_construct (sampleEnvironment []) 0 [])))) \<noteq> None"
proof -
  define E where "E = sampleEnvironment []"
  define d where "d = deliver E [entityAdded 2, entityAdded 2] (GuiDocument_construct E 0 [])"
  define item where "item = \<lparr>graphicsEntity =
        (GraphicsShapeEntityDriver_createEntity 16 (sampleLabel 2))\<lparr>m_gfxScenePtr := Some 64\<rparr>,
      entityTreeNodeId = 2, gpxTreeNodeMapping = (None :: unit option)\<rparr>"
  have ais: "m_aisObject (graphicsEntity item) \<noteq> None"
    unfolding item_def
    by (simp add: sampleLabel_def XCaf_isShape_def GraphicsShapeEntityDriver_createEntity_def
          initEntity_def setEntityAisObject_def Let_def)
  have items: "m_vecGraphicsItem d = [item, item]"
    unfolding d_def E_def item_def
    by (simp add: sampleEnvironment_def sampleLabel_def history_def producesAisObject_def
          XCaf_isShape_def GuiDocument_construct_def mapGraphics_def onDocumentEntityAdded_def
          GraphicsShapeEntityDriver_createEntity_def initEntity_def setEntityAisObject_def
          Let_def)
  have id2: "entityTreeNodeId item = 2" unfolding item_def by simp
  have before: "map entityTreeNodeId (m_vecGraphicsItem d) = [2, 2]"
    by (simp add: items id2)
  have left: "m_vecGraphicsItem (onDocumentEntityAboutToBeDestroyed E 2 d) = [item]"
    by (simp add: onDocumentEntityAboutToBeDestroyed_items findGraphicsItem_def vector_erase_def
          items id2)
  have after: "map entityTreeNodeId
        (m_vecGraphicsItem (onDocumentEntityAboutToBeDestroyed E 2 d)) = [2]"
    by (simp add: left id2)
  have still: "2 \<in> set (map entityTreeNodeId
        (m_vecGraphicsItem (onDocumentEntityAboutToBeDestroyed E 2 d)))"
    by (simp add: left id2)
  have found: "m_aisObject (findGraphicsEntity 2 (onDocumentEntityAboutToBeDestroyed E 2 d))
        \<noteq> None"
    using ais by (simp add: findGraphicsEntity_def findGraphicsItem_def left id2)
  from before after still found show ?thesis
    unfolding d_def E_def by (intro conjI)
qed


section \<open>The bounding box after a removal\<close>

text \<open>
  Claim C6. When \<open>onDocumentEntityAboutToBeDestroyed\<close> removes an entity, the aggregate
  bounding box it leaves is the fold of \<open>BndUtils_add\<close>, from the left and starting from the
  box made void, over the bounding boxes of the presentation objects of the items that
  remain, which are one fewer than before.
\<close>

theorem bounding_box_recomputed_after_removal:
  "(\<exists>item \<in> set (m_vecGraphicsItem d). entityTreeNodeId item = nodeId) \<Longrightarrow>
     m_gpxBoundingBox (onDocumentEntityAboutToBeDestroyed E nodeId d)
       = foldl (\<lambda>box item.
                  BndUtils_add E box
                    (AisObject_boundingBox E (m_aisObject (graphicsEntity item))
                       (m_gfxScene (onDocumentEntityAboutToBeDestroyed E nodeId d))))
           (Bnd_Box_SetVoid E (m_gpxBoundingBox d))
           (m_vecGraphicsItem (onDocumentEntityAboutToBeDestroyed E nodeId d))
     \<and> length (m_vecGraphicsItem (onDocumentEntityAboutToBeDestroyed E nodeId d))
         = length (m_vecGraphicsItem d) - 1"
proof -
  let ?P = "\<lambda>item. entityTreeNodeId item = nodeId"
  assume "\<exists>item \<in> set (m_vecGraphicsItem d). entityTreeNodeId item = nodeId"
  then have "find_if ?P (m_vecGraphicsItem d) \<noteq> None"
    by (simp add: find_if_None_iff)
  then obtain i where i: "find_if ?P (m_vecGraphicsItem d) = Some i" by auto
  from find_if_Some [OF i] have "i < length (m_vecGraphicsItem d)" by simp
  with i show ?thesis
    by (simp add: onDocumentEntityAboutToBeDestroyed_def findGraphicsItem_def
          recomputeBoundingBox_def vector_erase_def Let_def)
qed

theorem bounding_box_recomputed_after_removal_witness:
  "(\<exists>item \<in> set (m_vecGraphicsItem (GuiDocument_construct (sampleEnvironment [2, 4, 6]) 0 [])).
      entityTreeNodeId item = 4)
   \<and> m_gpxBoundingBox
        (onDocumentEntityAboutToBeDestroyed (sampleEnvironment [2, 4, 6]) 4
           (GuiDocument_construct (sampleEnvironment [2, 4, 6]) 0 []))
       = [m_aisObject (GraphicsShapeEntityDriver_createEntity 16 (sampleLabel 2)),
          m_aisObject (GraphicsShapeEntityDriver_createEntity 16 (sampleLabel 6))]
   \<and> length (m_vecGraphicsItem
        (onDocumentEntityAboutToBeDestroyed (sampleEnvironment [2, 4, 6]) 4
           (GuiDocument_construct (sampleEnvironment [2, 4, 6]) 0 []))) = 2"
proof -
  define E where "E = sampleEnvironment [2, 4, 6]"
  define d where "d = GuiDocument_construct E 0 []"
  define d' where "d' = onDocumentEntityAboutToBeDestroyed E 4 d"
  have ids: "map entityTreeNodeId (m_vecGraphicsItem d) = [2, 4, 6]"
    unfolding d_def E_def by (simp add: sample_simps)
  have "4 \<in> entityTreeNodeId ` set (m_vecGraphicsItem d)"
    using arg_cong [OF ids, of set] by simp
  then have has4: "\<exists>item \<in> set (m_vecGraphicsItem d). entityTreeNodeId item = 4"
    by (auto simp: image_iff)
  have len: "length (m_vecGraphicsItem d) = 3"
    using arg_cong [OF ids, of length] by simp
  have void: "Bnd_Box_SetVoid E (m_gpxBoundingBox d) = []"
    unfolding E_def by (simp add: sampleEnvironment_def)
  have left: "map (\<lambda>item. m_aisObject (graphicsEntity item)) (m_vecGraphicsItem d')
        = [m_aisObject (GraphicsShapeEntityDriver_createEntity 16 (sampleLabel 2)),
           m_aisObject (GraphicsShapeEntityDriver_createEntity 16 (sampleLabel 6))]"
    unfolding d'_def d_def E_def
    by (simp add: onDocumentEntityAboutToBeDestroyed_items findGraphicsItem_def vector_erase_def
          sample_simps)
  from bounding_box_recomputed_after_removal [OF has4, of E]
  have box: "m_gpxBoundingBox d'
       = foldl (\<lambda>box item.
                  BndUtils_add E box
                    (AisObject_boundingBox E (m_aisObject (graphicsEntity item)) (m_gfxScene d')))
           (Bnd_Box_SetVoid E (m_gpxBoundingBox d)) (m_vecGraphicsItem d')"
    and len': "length (m_vecGraphicsItem d') = length (m_vecGraphicsItem d) - 1"
    unfolding d'_def by simp_all
  have box': "m_gpxBoundingBox d'
       = [m_aisObject (GraphicsShapeEntityDriver_createEntity 16 (sampleLabel 2)),
          m_aisObject (GraphicsShapeEntityDriver_createEntity 16 (sampleLabel 6))]"
    unfolding box void unfolding E_def sample_fold using left by simp
  from len len' have len2: "length (m_vecGraphicsItem d') = 2" by simp
  from has4 box' len2 show ?thesis
    unfolding d'_def d_def E_def by (intro conjI)
qed


section \<open>The exporters: what \<open>transfer\<close> collects\<close>

lemma transfer_loop_document_set:
  "m_document w = Some doc \<Longrightarrow>
     OccGltfWriter_transfer_loop w items
       = w\<lparr>m_seqRootLabel := m_seqRootLabel w @ treeNodeLabelsOf doc items\<rparr>"
proof (induction items arbitrary: w)
  case Nil
  then show ?case by simp
next
  case (Cons appItem items)
  show ?case
  proof (cases appItem)
    case AppItem_Null
    with Cons show ?thesis by (simp add: OccGltfWriter_transfer_item_def)
  next
    case (AppItem_Document doc')
    with Cons show ?thesis by (simp add: OccGltfWriter_transfer_item_def)
  next
    case (AppItem_DocumentTreeNode doc' nodeId label)
    show ?thesis
    proof (cases "doc' = doc")
      case True
      let ?w1 = "w\<lparr>m_seqRootLabel := m_seqRootLabel w @ [label]\<rparr>"
      have step: "OccGltfWriter_transfer_item w appItem = ?w1"
        using Cons.prems AppItem_DocumentTreeNode True
        by (simp add: OccGltfWriter_transfer_item_def)
      have "m_document ?w1 = Some doc" using Cons.prems by simp
      from Cons.IH [OF this] step AppItem_DocumentTreeNode True show ?thesis by simp
    next
      case False
      have step: "OccGltfWriter_transfer_item w appItem = w"
        using Cons.prems AppItem_DocumentTreeNode False
        by (simp add: OccGltfWriter_transfer_item_def)
      from Cons.IH [OF Cons.prems] step AppItem_DocumentTreeNode False show ?thesis by simp
    qed
  qed
qed

lemma transfer_loop_document_null:
  "m_document w = None \<Longrightarrow>
     OccGltfWriter_transfer_loop w items
       = (case firstDocument items of
            None \<Rightarrow> w
          | Some doc \<Rightarrow>
              w\<lparr>m_document := Some doc,
                m_seqRootLabel := m_seqRootLabel w @ treeNodeLabelsOf doc items\<rparr>)"
proof (induction items)
  case Nil
  then show ?case by simp
next
  case (Cons appItem items)
  show ?case
  proof (cases appItem)
    case AppItem_Null
    with Cons show ?thesis
      by (simp add: OccGltfWriter_transfer_item_def split: option.splits)
  next
    case (AppItem_Document doc)
    let ?w1 = "w\<lparr>m_document := Some doc\<rparr>"
    have step: "OccGltfWriter_transfer_item w appItem = ?w1"
      using Cons.prems AppItem_Document by (simp add: OccGltfWriter_transfer_item_def)
    have "m_document ?w1 = Some doc" by simp
    from transfer_loop_document_set [OF this, of items] step AppItem_Document
    show ?thesis by simp
  next
    case (AppItem_DocumentTreeNode doc nodeId label)
    let ?w1 = "w\<lparr>m_document := Some doc, m_seqRootLabel := m_seqRootLabel w @ [label]\<rparr>"
    have step: "OccGltfWriter_transfer_item w appItem = ?w1"
      using Cons.prems AppItem_DocumentTreeNode by (simp add: OccGltfWriter_transfer_item_def)
    have "m_document ?w1 = Some doc" by simp
    from transfer_loop_document_set [OF this, of items] step AppItem_DocumentTreeNode
    show ?thesis by simp
  qed
qed

lemma firstDocument_None_iff:
  "(firstDocument items = None)
     = (\<forall>appItem \<in> set items. \<not> isDocument appItem \<and> \<not> isDocumentTreeNode appItem)"
  by (induction items rule: firstDocument.induct) simp_all

lemma firstDocument_find:
  "firstDocument items
     = Option.bind (List.find (\<lambda>appItem. isDocument appItem \<or> isDocumentTreeNode appItem) items)
         document"
  by (induction items rule: firstDocument.induct) simp_all

lemma treeNodeLabelsOf_filter:
  "treeNodeLabelsOf doc items
     = map documentTreeNode_label
         (filter (\<lambda>appItem. isDocumentTreeNode appItem \<and> document appItem = Some doc) items)"
  by (induction doc items rule: treeNodeLabelsOf.induct) simp_all

text \<open>
  Claim C10. \<open>OccGltfWriter_transfer\<close> returns false exactly when no item of the span is a
  document or a document tree node. Otherwise it returns true, the writer's document is the
  document of the first such item, and the sequence of root labels holds the labels of the
  tree-node items whose document is that one, in the order of the span, and nothing else.
  What the writer held before the call does not matter, and its parameters are kept.
\<close>

theorem gltf_transfer_first_document_and_its_labels:
  "OccGltfWriter_transfer w items
     = (firstDocument items \<noteq> None,
        w\<lparr>m_document := firstDocument items,
          m_seqRootLabel :=
            (case firstDocument items of None \<Rightarrow> [] | Some doc \<Rightarrow> treeNodeLabelsOf doc items)\<rparr>)
   \<and> (fst (OccGltfWriter_transfer w items) = False)
       = (\<forall>appItem \<in> set items. \<not> isDocument appItem \<and> \<not> isDocumentTreeNode appItem)
   \<and> firstDocument items
       = Option.bind
           (List.find (\<lambda>appItem. isDocument appItem \<or> isDocumentTreeNode appItem) items) document
   \<and> (\<forall>doc. treeNodeLabelsOf doc items
         = map documentTreeNode_label
             (filter (\<lambda>appItem. isDocumentTreeNode appItem \<and> document appItem = Some doc) items))"
proof -
  let ?w0 = "w\<lparr>m_document := None, m_seqRootLabel := []\<rparr>"
  have "m_document ?w0 = None" by simp
  from transfer_loop_document_null [OF this, of items]
  have eq: "OccGltfWriter_transfer w items
     = (firstDocument items \<noteq> None,
        w\<lparr>m_document := firstDocument items,
          m_seqRootLabel :=
            (case firstDocument items of None \<Rightarrow> [] | Some doc \<Rightarrow> treeNodeLabelsOf doc items)\<rparr>)"
    by (simp add: OccGltfWriter_transfer_def Let_def split: option.splits)
  then have "(fst (OccGltfWriter_transfer w items) = False) = (firstDocument items = None)"
    by simp
  then have none: "(fst (OccGltfWriter_transfer w items) = False)
       = (\<forall>appItem \<in> set items. \<not> isDocument appItem \<and> \<not> isDocumentTreeNode appItem)"
    by (simp only: firstDocument_None_iff)
  have labels: "\<forall>doc. treeNodeLabelsOf doc items
         = map documentTreeNode_label
             (filter (\<lambda>appItem. isDocumentTreeNode appItem \<and> document appItem = Some doc) items)"
    by (simp add: treeNodeLabelsOf_filter)
  from eq none firstDocument_find [of items] labels show ?thesis
    by (intro conjI)
qed

theorem gltf_transfer_first_document_and_its_labels_witness:
  "OccGltfWriter_transfer
     \<lparr>m_document = Some 1, m_seqRootLabel = [sampleLabel 8], m_params_format = Format_Binary\<rparr>
     [AppItem_Null, AppItem_DocumentTreeNode 5 2 (sampleLabel 2), AppItem_Document 9,
      AppItem_DocumentTreeNode 9 4 (sampleLabel 4), AppItem_DocumentTreeNode 5 6 (sampleLabel 6)]
   = (True, \<lparr>m_document = Some 5, m_seqRootLabel = [sampleLabel 2, sampleLabel 6],
             m_params_format = Format_Binary\<rparr>)
   \<and> \<not> isDocument AppItem_Null \<and> \<not> isDocumentTreeNode AppItem_Null
   \<and> fst (OccGltfWriter_transfer
        \<lparr>m_document = Some 1, m_seqRootLabel = [sampleLabel 8], m_params_format = Format_Binary\<rparr>
        [AppItem_Null]) = False"
proof -
  let ?w = "\<lparr>m_document = Some 1, m_seqRootLabel = [sampleLabel 8],
             m_params_format = Format_Binary\<rparr>"
  let ?items = "[AppItem_Null, AppItem_DocumentTreeNode 5 2 (sampleLabel 2), AppItem_Document 9,
      AppItem_DocumentTreeNode 9 4 (sampleLabel 4), AppItem_DocumentTreeNode 5 6 (sampleLabel 6)]"
  have first: "firstDocument ?items = Some 5" by simp
  have labels: "treeNodeLabelsOf 5 ?items = [sampleLabel 2, sampleLabel 6]" by simp
  have none: "\<forall>appItem \<in> set [AppItem_Null]. \<not> isDocument appItem \<and> \<not> isDocumentTreeNode appItem"
    by simp
  from gltf_transfer_first_document_and_its_labels [of ?w ?items]
  have "OccGltfWriter_transfer ?w ?items
     = (firstDocument ?items \<noteq> None,
        ?w\<lparr>m_document := firstDocument ?items,
          m_seqRootLabel :=
            (case firstDocument ?items of None \<Rightarrow> [] | Some doc \<Rightarrow> treeNodeLabelsOf doc ?items)\<rparr>)"
    by (elim conjE)
  then have a: "OccGltfWriter_transfer ?w ?items
     = (True, \<lparr>m_document = Some 5, m_seqRootLabel = [sampleLabel 2, sampleLabel 6],
             m_params_format = Format_Binary\<rparr>)"
    unfolding first labels by simp
  from gltf_transfer_first_document_and_its_labels [of ?w "[AppItem_Null]"] none
  have b: "fst (OccGltfWriter_transfer ?w [AppItem_Null]) = False"
    by blast
  from a b show ?thesis by simp
qed


section \<open>The exporters: writing before a transfer\<close>

text \<open>
  Claim C7. \<open>writeFile\<close> fails without writing when nothing has been transferred: the VRML
  writer returns false and leaves the files as they are when its scene is null, and the glTF
  writer does so when its document is null, which is the state every failed \<open>transfer\<close>
  leaves it in.
\<close>

theorem writeFile_fails_without_transfer:
  "(m_scene v = None \<longrightarrow> OccVrmlWriter_writeFile outs v filepath fs = (False, fs))
   \<and> (m_document w = None \<longrightarrow> OccGltfWriter_writeFile writer w filepath fs = (False, fs))
   \<and> (\<not> fst (OccGltfWriter_transfer w items) \<longrightarrow>
        OccGltfWriter_writeFile writer (snd (OccGltfWriter_transfer w items)) filepath fs
          = (False, fs))"
  by (simp add: OccVrmlWriter_writeFile_def OccGltfWriter_writeFile_def
        OccGltfWriter_transfer_def Let_def)

theorem writeFile_fails_without_transfer_witness:
  "m_scene \<lparr>m_scene = None\<rparr> = None
   \<and> OccVrmlWriter_writeFile sampleStream \<lparr>m_scene = None\<rparr> ''out.wrl'' [] = (False, [])
   \<and> OccVrmlWriter_writeFile sampleStream \<lparr>m_scene = Some 1\<rparr> ''out.wrl'' []
       = (True, [''out.wrl''])
   \<and> m_document \<lparr>m_document = None, m_seqRootLabel = [], m_params_format = Format_Json\<rparr> = None
   \<and> OccGltfWriter_writeFile sampleGltfWriter
        \<lparr>m_document = None, m_seqRootLabel = [], m_params_format = Format_Json\<rparr> ''out.gltf'' []
       = (False, [])
   \<and> fst (OccGltfWriter_transfer
        \<lparr>m_document = None, m_seqRootLabel = [], m_params_format = Format_Json\<rparr> [AppItem_Null])
       = False
   \<and> OccGltfWriter_writeFile sampleGltfWriter
        (snd (OccGltfWriter_transfer
           \<lparr>m_document = None, m_seqRootLabel = [], m_params_format = Format_Json\<rparr>
           [AppItem_Null])) ''out.gltf'' []
       = (False, [])
   \<and> OccGltfWriter_writeFile sampleGltfWriter
        (snd (OccGltfWriter_transfer
           \<lparr>m_document = None, m_seqRootLabel = [], m_params_format = Format_Json\<rparr>
           [AppItem_Document 9])) ''out.gltf'' []
       = (True, [''out.gltf''])"
proof -
  let ?w = "\<lparr>m_document = None, m_seqRootLabel = [], m_params_format = Format_Json\<rparr>"
  let ?v = "\<lparr>m_scene = None\<rparr> :: nat OccVrmlWriter"
  have v: "m_scene ?v = None" and w: "m_document ?w = None" by simp_all
  have t: "\<not> fst (OccGltfWriter_transfer ?w [AppItem_Null])"
    by (simp add: OccGltfWriter_transfer_def OccGltfWriter_transfer_item_def Let_def)
  note inst1 = writeFile_fails_without_transfer
               [of ?v sampleStream "''out.wrl''" "[]" ?w sampleGltfWriter "[AppItem_Null]"]
  have vr: "OccVrmlWriter_writeFile sampleStream ?v ''out.wrl'' [] = (False, [])"
    using inst1 v by blast
  have ok: "OccVrmlWriter_writeFile sampleStream \<lparr>m_scene = Some 1\<rparr> ''out.wrl'' []
       = (True, [''out.wrl''])"
    by (simp add: OccVrmlWriter_writeFile_def sampleStream_def)
  note inst2 = writeFile_fails_without_transfer
               [of ?v sampleStream "''out.gltf''" "[]" ?w sampleGltfWriter "[AppItem_Null]"]
  have g1: "OccGltfWriter_writeFile sampleGltfWriter ?w ''out.gltf'' [] = (False, [])"
    using inst2 w by blast
  have g2: "OccGltfWriter_writeFile sampleGltfWriter
        (snd (OccGltfWriter_transfer ?w [AppItem_Null])) ''out.gltf'' [] = (False, [])"
    using inst2 t by blast
  have g3: "OccGltfWriter_writeFile sampleGltfWriter
        (snd (OccGltfWriter_transfer ?w [AppItem_Document 9])) ''out.gltf'' []
       = (True, [''out.gltf''])"
    by (simp add: OccGltfWriter_writeFile_def OccGltfWriter_transfer_def
          OccGltfWriter_transfer_item_def sampleGltfWriter_def Let_def)
  from v vr ok w g1 t g2 g3 show ?thesis by simp
qed

end
